theory Spec2Isabelle
  imports Complex_Main "HOL-Library.Sublist"
begin

section \<open>Python values\<close>

text \<open>
  The relay of \<^verbatim>\<open>python_mcp_server.py\<close> handles three kinds of Python values: text and
  bytes, the value \<^verbatim>\<open>json.loads\<close> returns for the sandbox's reply, and the dictionary it
  answers with. A \<^verbatim>\<open>str\<close> is held as the list of the bytes of its UTF-8 encoding, so
  \<^verbatim>\<open>s.encode()\<close> is the identity (a text with lone surrogates, which Python cannot
  encode, is not a value of the model); \<^verbatim>\<open>bytes\<close> are byte lists as well. The reply of
  the sandbox is untyped: every field may hold any JSON value, and the code's attribute
  accesses and subscripts fail on the wrong ones, so the model keeps the whole JSON type.
\<close>

datatype pyfloat = Finite real | NaN | PosInf | NegInf

datatype json =
    JNull
  | JBool bool
  | JInt int
  | JFloat pyfloat
  | JStr string
  | JArr "json list"
  | JObj "(string \<times> json) list"

text \<open>An exception is its class name and the text \<^verbatim>\<open>str(e)\<close> gives.\<close>

datatype pyexc = PyExc (exc_class: string) (exc_str: string)

fun type_name :: "json \<Rightarrow> string" where
  "type_name JNull = ''NoneType''"
| "type_name (JBool b) = ''bool''"
| "type_name (JInt i) = ''int''"
| "type_name (JFloat f) = ''float''"
| "type_name (JStr s) = ''str''"
| "type_name (JArr xs) = ''list''"
| "type_name (JObj kvs) = ''dict''"

definition quoted :: "string \<Rightarrow> string" where
  "quoted s = CHR 0x27 # s @ [CHR 0x27]"

definition AttributeError :: "json \<Rightarrow> string \<Rightarrow> pyexc" where
  "AttributeError v attr =
     PyExc ''AttributeError'' (quoted (type_name v) @ '' object has no attribute '' @ quoted attr)"

definition KeyError :: "string \<Rightarrow> pyexc" where
  "KeyError k = PyExc ''KeyError'' (quoted k)"

definition TypeError :: "string \<Rightarrow> pyexc" where
  "TypeError msg = PyExc ''TypeError'' msg"

text \<open>\<^verbatim>\<open>v == 0\<close>: true of the integer and the float zero and, a bool being an int, of False.\<close>

fun eq_zero :: "json \<Rightarrow> bool" where
  "eq_zero (JInt i) = (i = 0)"
| "eq_zero (JBool b) = (\<not> b)"
| "eq_zero (JFloat f) = (f = Finite 0)"
| "eq_zero v = False"

text \<open>The truth value of \<^verbatim>\<open>if v:\<close>.\<close>

fun truthy :: "json \<Rightarrow> bool" where
  "truthy JNull = False"
| "truthy (JBool b) = b"
| "truthy (JInt i) = (i \<noteq> 0)"
| "truthy (JFloat f) = (f \<noteq> Finite 0)"
| "truthy (JStr s) = (s \<noteq> [])"
| "truthy (JArr xs) = (xs \<noteq> [])"
| "truthy (JObj kvs) = (kvs \<noteq> [])"

text \<open>\<^verbatim>\<open>v.get(k, default)\<close>: only a dict has the method.\<close>

fun dict_get :: "json \<Rightarrow> string \<Rightarrow> json \<Rightarrow> pyexc + json" where
  "dict_get (JObj kvs) k d = Inr (case map_of kvs k of None \<Rightarrow> d | Some v \<Rightarrow> v)"
| "dict_get v k d = Inl (AttributeError v ''get'')"

text \<open>\<^verbatim>\<open>v[k]\<close> with a string key.\<close>

fun getitem :: "json \<Rightarrow> string \<Rightarrow> pyexc + json" where
  "getitem (JObj kvs) k = (case map_of kvs k of None \<Rightarrow> Inl (KeyError k) | Some v \<Rightarrow> Inr v)"
| "getitem (JArr xs) k = Inl (TypeError ''list indices must be integers or slices, not str'')"
| "getitem (JStr s) k = Inl (TypeError (''string indices must be integers, not '' @ quoted ''str''))"
| "getitem v k = Inl (TypeError (quoted (type_name v) @ '' object is not subscriptable''))"

text \<open>\<^verbatim>\<open>v.endswith(t)\<close>: only a str has the method.\<close>

fun endswith :: "json \<Rightarrow> string \<Rightarrow> pyexc + bool" where
  "endswith (JStr s) t = Inr (suffix t s)"
| "endswith v t = Inl (AttributeError v ''endswith'')"

text \<open>
  The items \<^verbatim>\<open>for x in v\<close> runs over: the elements of a list, the keys of a dict, the
  characters of a str (here its bytes: the loop below fails on the first of them either
  way); any other value is not iterable.
\<close>

fun py_iter :: "json \<Rightarrow> pyexc + json list" where
  "py_iter (JArr xs) = Inr xs"
| "py_iter (JObj kvs) = Inr (map (\<lambda>kv. JStr (fst kv)) kvs)"
| "py_iter (JStr s) = Inr (map (\<lambda>c. JStr [c]) s)"
| "py_iter v = Inl (TypeError (quoted (type_name v) @ '' object is not iterable''))"

text \<open>\<^verbatim>\<open>os.path.join(a, b)\<close> of \<^verbatim>\<open>posixpath\<close>.\<close>

definition os_path_join :: "string \<Rightarrow> string \<Rightarrow> string" where
  "os_path_join a b =
     (if prefix ''/'' b then b
      else if a = [] \<or> suffix ''/'' a then a @ b
      else a @ ''/'' @ b)"

text \<open>\<^verbatim>\<open>str(n)\<close> of a length.\<close>

fun str_of_nat :: "nat \<Rightarrow> string" where
  "str_of_nat n =
     (if n < 10 then [''0123456789'' ! n]
      else str_of_nat (n div 10) @ [''0123456789'' ! (n mod 10)])"

declare str_of_nat.simps [simp del]

text \<open>\<^verbatim>\<open>hexdigest()\<close> of a 128-bit digest: 32 lower-case hexadecimal digits.\<close>

definition hex_digit :: "nat \<Rightarrow> char" where
  "hex_digit d = ''0123456789abcdef'' ! (d mod 16)"

fun hex_digits :: "nat \<Rightarrow> nat \<Rightarrow> string" where
  "hex_digits 0 n = []"
| "hex_digits (Suc k) n = hex_digits k (n div 16) @ [hex_digit n]"

definition hexdigest :: "nat \<Rightarrow> string" where
  "hexdigest n = hex_digits 32 n"

section \<open>The world outside the relay\<close>

text \<open>
  What the relay calls but does not define is a parameter of the model: the hash, the
  clock, the text functions of the standard library, the codecs, the file system's and the
  network's failures, and the sandbox behind the URL. \<open>strftime_now E k\<close> is the text
  \<^verbatim>\<open>datetime.now().strftime("%Y%m%d_%H%M%S")\<close> returns at the \<open>k\<close>-th reading of the clock.
\<close>

record http_request =
  url :: string
  headers :: "(string \<times> string) list"
  body :: string

record env =
  BASE_DIR :: string
  md5 :: "string \<Rightarrow> nat"
  strftime_now :: "nat \<Rightarrow> string"
  dedent :: "string \<Rightarrow> string"
  strip :: "string \<Rightarrow> string"
  decode_utf8 :: "string \<Rightarrow> pyexc + string"
  b64encode :: "string \<Rightarrow> string"
  b64decode :: "string \<Rightarrow> pyexc + string"
  json_dumps :: "json \<Rightarrow> string"
  json_loads :: "string \<Rightarrow> pyexc + json"
  makedirs_error :: "string \<Rightarrow> pyexc option"
  mkdtemp :: "pyexc + string"
  open_error :: "string \<Rightarrow> string \<Rightarrow> pyexc option"
  cleanup_error :: "pyexc option"
  urlopen :: "http_request \<Rightarrow> pyexc + string"

text \<open>
  The state a call reads and changes: the files and directories on disk, the requests
  handed to \<^verbatim>\<open>urlopen\<close> so far, and how often the clock has been read.
\<close>

record world =
  disk :: "string \<rightharpoonup> string"
  dirs :: "string set"
  posted :: "http_request list"
  ticks :: nat

text \<open>A statement runs in a world and either raises or returns a value, in a new world.\<close>

type_synonym 'a io = "world \<Rightarrow> (pyexc + 'a) \<times> world"

definition return_io :: "'a \<Rightarrow> 'a io" where
  "return_io x w = (Inr x, w)"

definition lift_io :: "pyexc + 'a \<Rightarrow> 'a io" where
  "lift_io r w = (r, w)"

definition bind_io :: "'a io \<Rightarrow> ('a \<Rightarrow> 'b io) \<Rightarrow> 'b io" where
  "bind_io m f w = (case m w of (Inl e, w') \<Rightarrow> (Inl e, w') | (Inr x, w') \<Rightarrow> f x w')"

text \<open>
  \<^verbatim>\<open>try: m finally: h\<close>, the exit of a \<^verbatim>\<open>with\<close> block: \<open>h\<close> runs whether \<open>m\<close> raised or
  not, and what \<open>h\<close> raises replaces the outcome of \<open>m\<close>.
\<close>

definition finally_io :: "'a io \<Rightarrow> unit io \<Rightarrow> 'a io" where
  "finally_io m h w =
     (case m w of (r, w') \<Rightarrow>
        (case h w' of (Inl e, w'') \<Rightarrow> (Inl e, w'') | (Inr u, w'') \<Rightarrow> (r, w'')))"

subsection \<open>Files, directories, network\<close>

text \<open>\<^verbatim>\<open>os.makedirs(path, exist_ok=True)\<close>.\<close>

definition os_makedirs :: "env \<Rightarrow> string \<Rightarrow> unit io" where
  "os_makedirs E path w =
     (case makedirs_error E path of
        Some e \<Rightarrow> (Inl e, w)
      | None \<Rightarrow> (Inr (), w\<lparr>dirs := insert path (dirs w)\<rparr>))"

text \<open>\<^verbatim>\<open>open(path, mode)\<close> for writing creates the file or empties it.\<close>

definition open_write :: "env \<Rightarrow> string \<Rightarrow> string \<Rightarrow> unit io" where
  "open_write E path mode w =
     (case open_error E path mode of
        Some e \<Rightarrow> (Inl e, w)
      | None \<Rightarrow> (Inr (), w\<lparr>disk := (disk w)(path \<mapsto> [])\<rparr>))"

definition write_file :: "string \<Rightarrow> string \<Rightarrow> unit io" where
  "write_file path bs w = (Inr (), w\<lparr>disk := (disk w)(path \<mapsto> bs)\<rparr>)"

text \<open>\<^verbatim>\<open>open(path, "rb").read()\<close>.\<close>

definition read_file :: "env \<Rightarrow> string \<Rightarrow> string io" where
  "read_file E path w =
     (case open_error E path ''rb'' of
        Some e \<Rightarrow> (Inl e, w)
      | None \<Rightarrow>
          (case disk w path of
             None \<Rightarrow>
               (Inl (PyExc ''FileNotFoundError''
                       (''[Errno 2] No such file or directory: '' @ quoted path)), w)
           | Some bs \<Rightarrow> (Inr bs, w)))"

text \<open>
  \<^verbatim>\<open>tempfile.TemporaryDirectory()\<close>: entering creates the directory \<^verbatim>\<open>mkdtemp\<close> names,
  leaving removes it with everything below it. A removal that fails is modelled as
  leaving the tree in place.
\<close>

definition below :: "string \<Rightarrow> string \<Rightarrow> bool" where
  "below d p = prefix (d @ ''/'') p"

definition rmtree :: "string \<Rightarrow> world \<Rightarrow> world" where
  "rmtree d w =
     w\<lparr>disk := (\<lambda>p. if below d p then None else disk w p),
       dirs := {x \<in> dirs w. x \<noteq> d \<and> \<not> below d x}\<rparr>"

definition TemporaryDirectory_enter :: "env \<Rightarrow> string io" where
  "TemporaryDirectory_enter E w =
     (case mkdtemp E of
        Inl e \<Rightarrow> (Inl e, w)
      | Inr d \<Rightarrow> (Inr d, w\<lparr>dirs := insert d (dirs w)\<rparr>))"

definition TemporaryDirectory_exit :: "env \<Rightarrow> string \<Rightarrow> unit io" where
  "TemporaryDirectory_exit E d w =
     (case cleanup_error E of
        Some e \<Rightarrow> (Inl e, w)
      | None \<Rightarrow> (Inr (), rmtree d w))"

text \<open>
  \<^verbatim>\<open>urllib.request.urlopen(req, data)\<close> with \<^verbatim>\<open>response.read()\<close>: the request is handed to
  the network, which raises or returns the body of the reply.
\<close>

definition http_post :: "env \<Rightarrow> http_request \<Rightarrow> string io" where
  "http_post E req w = (urlopen E req, w\<lparr>posted := posted w @ [req]\<rparr>)"

section \<open>The relay\<close>

subsection \<open>Config\<close>

definition MCP_SERVER_NAME :: string where
  "MCP_SERVER_NAME = ''python-sandbox-mcp-sse''"

definition SNEKBOX_URL :: string where
  "SNEKBOX_URL = ''http://localhost:8060/eval''"

definition TEMP_DIR :: "env \<Rightarrow> string" where
  "TEMP_DIR E = os_path_join (BASE_DIR E) ''temp''"

subsection \<open>get_unique_filename\<close>

definition get_unique_filename :: "env \<Rightarrow> string \<Rightarrow> string \<Rightarrow> string \<Rightarrow> string io" where
  "get_unique_filename E content prefix' suffix' w =
     (let content_hash = take 8 (hexdigest (md5 E content));
          timestamp = strftime_now E (ticks w)
      in (Inr (prefix' @ content_hash @ ''_'' @ timestamp @ suffix'),
          w\<lparr>ticks := Suc (ticks w)\<rparr>))"

subsection \<open>execute_python_code\<close>

type_synonym response = "string \<rightharpoonup> json"

text \<open>Lines 66 to 90: the source file, the request, the reply parsed.\<close>

definition payload :: "string \<Rightarrow> string \<Rightarrow> json" where
  "payload main_filename content =
     JObj [(''args'', JArr [JStr main_filename]),
           (''files'', JArr [JObj [(''path'', JStr main_filename),
                                   (''content'', JStr content)]])]"

definition send_code :: "env \<Rightarrow> string \<Rightarrow> string \<Rightarrow> json io" where
  "send_code E python_code temp_dir =
     bind_io (get_unique_filename E python_code [] ''.py'') (\<lambda>main_filename.
     let main_file_path = os_path_join temp_dir main_filename in
     bind_io (open_write E main_file_path ''w'') (\<lambda>u.
     bind_io (write_file main_file_path (strip E (dedent E python_code))) (\<lambda>u.
     bind_io (read_file E main_file_path) (\<lambda>source_bytes.
     bind_io (lift_io (decode_utf8 E (b64encode E source_bytes))) (\<lambda>content.
     let data = payload main_filename content;
         json_data = json_dumps E data;
         req = \<lparr>url = SNEKBOX_URL,
                headers = [(''Content-Type'', ''application/json; charset=utf-8''),
                           (''Content-Length'', str_of_nat (length json_data))],
                body = json_data\<rparr>
     in
     bind_io (http_post E req) (\<lambda>reply.
     bind_io (lift_io (decode_utf8 E reply)) (\<lambda>text.
     lift_io (json_loads E text))))))))"

text \<open>\<^verbatim>\<open>v.strip()\<close>: only a str has the method.\<close>

fun str_strip :: "env \<Rightarrow> json \<Rightarrow> pyexc + string" where
  "str_strip E (JStr s) = Inr (strip E s)"
| "str_strip E v = Inl (AttributeError v ''strip'')"

text \<open>\<^verbatim>\<open>base64.b64decode(v)\<close>: the argument must be a str (or bytes, which JSON has not).\<close>

fun base64_b64decode :: "env \<Rightarrow> json \<Rightarrow> pyexc + string" where
  "base64_b64decode E (JStr s) = b64decode E s"
| "base64_b64decode E v =
     Inl (TypeError (''argument should be a bytes-like object or ASCII string, not ''
                     @ quoted (type_name v)))"

text \<open>Lines 128 to 133: \<^verbatim>\<open>response.update\<close> with the fields of a plot.\<close>

definition plot_fields :: "response \<Rightarrow> json \<Rightarrow> string \<Rightarrow> response" where
  "plot_fields response plot_data output_path =
     response
       (''output_type'' \<mapsto> JStr ''plot'',
        ''plot_data'' \<mapsto> plot_data,
        ''plot_path'' \<mapsto> JStr output_path,
        ''details'' \<mapsto> JStr ''Code executed successfully and generated a plot'')"

text \<open>
  Lines 121 to 133, the body of the loop over the files of the reply. The file is opened
  (created or emptied) before its content is looked up and decoded.
\<close>

definition save_plot :: "env \<Rightarrow> json \<Rightarrow> response \<Rightarrow> response io" where
  "save_plot E file response =
     bind_io (lift_io (getitem file ''path'')) (\<lambda>path.
     bind_io (lift_io (endswith path ''.png'')) (\<lambda>is_png.
     if \<not> is_png then return_io response
     else
       bind_io (get_unique_filename E [] ''plot_'' ''.png'') (\<lambda>output_filename.
       let output_path = os_path_join (TEMP_DIR E) output_filename in
       bind_io (open_write E output_path ''wb'') (\<lambda>u.
       bind_io (lift_io (getitem file ''content'')) (\<lambda>content.
       bind_io (lift_io (base64_b64decode E content)) (\<lambda>decoded.
       bind_io (write_file output_path decoded) (\<lambda>u.
       bind_io (lift_io (getitem file ''content'')) (\<lambda>plot_data.
       return_io (plot_fields response plot_data output_path)))))))))"

fun save_plots :: "env \<Rightarrow> json list \<Rightarrow> response \<Rightarrow> response io" where
  "save_plots E [] response w = (Inr response, w)"
| "save_plots E (file # rest) response w =
     (case save_plot E file response w of
        (Inl e, w') \<Rightarrow> (Inl e, w')
      | (Inr response', w') \<Rightarrow> save_plots E rest response' w')"

text \<open>Lines 92 to 142: the reply turned into the result.\<close>

definition build_response :: "env \<Rightarrow> json \<Rightarrow> response io" where
  "build_response E result =
     bind_io (lift_io (dict_get result ''returncode'' (JInt 0))) (\<lambda>returncode.
     bind_io (lift_io (dict_get result ''stdout'' (JStr []))) (\<lambda>raw_stdout.
     bind_io (lift_io (str_strip E raw_stdout)) (\<lambda>stdout.
     bind_io (lift_io (dict_get result ''files'' (JArr []))) (\<lambda>files.
     let response =
           [''status'' \<mapsto> JStr (if eq_zero returncode then ''success'' else ''error''),
            ''returncode'' \<mapsto> returncode]
     in
     if \<not> eq_zero returncode then
       return_io (response
         (''error_type'' \<mapsto> JStr ''execution_error'',
          ''error_message'' \<mapsto> JStr stdout,
          ''details'' \<mapsto> JStr ''Code execution encountered syntax error or runtime error''))
     else
       let response =
             (if stdout \<noteq> [] then
                response
                  (''output_type'' \<mapsto> JStr ''text'',
                   ''stdout'' \<mapsto> JStr stdout,
                   ''details'' \<mapsto> JStr ''Code executed successfully and produced text output'')
              else response)
       in
       bind_io
         (if truthy files then
            bind_io (lift_io (py_iter files)) (\<lambda>items. save_plots E items response)
          else return_io response) (\<lambda>response.
       return_io
         (if stdout = [] \<and> \<not> truthy files then
            response
              (''output_type'' \<mapsto> JStr ''none'',
               ''details'' \<mapsto> JStr ''Code executed successfully but produced no output'')
          else response))))))"

text \<open>Lines 63 to 142, the body of the \<^verbatim>\<open>try\<close>.\<close>

definition try_body :: "env \<Rightarrow> string \<Rightarrow> response io" where
  "try_body E python_code =
     bind_io (os_makedirs E (TEMP_DIR E)) (\<lambda>u.
     bind_io (TemporaryDirectory_enter E) (\<lambda>temp_dir.
     finally_io
       (bind_io (send_code E python_code temp_dir) (\<lambda>result. build_response E result))
       (TemporaryDirectory_exit E temp_dir)))"

text \<open>Lines 144 to 151, the \<^verbatim>\<open>except Exception\<close> handler.\<close>

definition system_error :: "pyexc \<Rightarrow> response" where
  "system_error e =
     [''status'' \<mapsto> JStr ''error'',
      ''error_type'' \<mapsto> JStr ''system_error'',
      ''error_message'' \<mapsto> JStr (exc_str e),
      ''details'' \<mapsto> JStr ''System exception occurred during execution'']"

definition execute_python_code :: "env \<Rightarrow> string \<Rightarrow> world \<Rightarrow> response \<times> world" where
  "execute_python_code E python_code w =
     (case try_body E python_code w of
        (Inr response, w') \<Rightarrow> (response, w')
      | (Inl e, w') \<Rightarrow> (system_error e, w'))"

text \<open>
  The call as it stands after line 90: the working directory made, the temporary directory
  entered, the reply of the sandbox parsed. It is the prefix of \<open>try_body\<close> that the
  claims about the translation of a reply start from.
\<close>

definition request_phase :: "env \<Rightarrow> string \<Rightarrow> (string \<times> json) io" where
  "request_phase E python_code =
     bind_io (os_makedirs E (TEMP_DIR E)) (\<lambda>u.
     bind_io (TemporaryDirectory_enter E) (\<lambda>temp_dir.
     bind_io (send_code E python_code temp_dir) (\<lambda>result.
     return_io (temp_dir, result))))"

section \<open>Vocabulary of the claims\<close>

text \<open>
  A reply of the sandbox with its three fields read as lines 92 to 94 read them, defaults
  applied: any return code, a text as stdout, a list as files.
\<close>

definition reply_fields :: "json \<Rightarrow> json \<Rightarrow> string \<Rightarrow> json list \<Rightarrow> bool" where
  "reply_fields result returncode out entries =
     (dict_get result ''returncode'' (JInt 0) = Inr returncode
      \<and> dict_get result ''stdout'' (JStr []) = Inr (JStr out)
      \<and> dict_get result ''files'' (JArr []) = Inr (JArr entries))"

text \<open>An entry of files whose path is a text ending in \<^verbatim>\<open>.png\<close>.\<close>

definition png_entry :: "json \<Rightarrow> bool" where
  "png_entry file =
     (case getitem file ''path'' of Inr (JStr p) \<Rightarrow> suffix ''.png'' p | _ \<Rightarrow> False)"

definition png_entries :: "json list \<Rightarrow> json list" where
  "png_entries entries = filter png_entry entries"

text \<open>
  What an entry makes the body of the loop raise, whatever the file system does: a
  subscript or a method that fails on the entry, or a content \<^verbatim>\<open>b64decode\<close> rejects. An
  entry is in order when there is no such exception: its path is a text and, when that
  ends in \<^verbatim>\<open>.png\<close>, it has a content that decodes.
\<close>

definition entry_error :: "env \<Rightarrow> json \<Rightarrow> pyexc option" where
  "entry_error E file =
     (case getitem file ''path'' of
        Inl e \<Rightarrow> Some e
      | Inr path \<Rightarrow>
          (case endswith path ''.png'' of
             Inl e \<Rightarrow> Some e
           | Inr is_png \<Rightarrow>
               if \<not> is_png then None
               else
                 (case getitem file ''content'' of
                    Inl e \<Rightarrow> Some e
                  | Inr content \<Rightarrow>
                      (case base64_b64decode E content of
                         Inl e \<Rightarrow> Some e
                       | Inr decoded \<Rightarrow> None))))"

definition entry_ok :: "env \<Rightarrow> json \<Rightarrow> bool" where
  "entry_ok E file = (entry_error E file = None)"

definition entries_ok :: "env \<Rightarrow> json list \<Rightarrow> bool" where
  "entries_ok E entries = list_all (entry_ok E) entries"

text \<open>The name and the path line 122 and 123 give a plot at the \<open>k\<close>-th reading of the clock.\<close>

definition plot_name_at :: "env \<Rightarrow> nat \<Rightarrow> string" where
  "plot_name_at E k =
     ''plot_'' @ take 8 (hexdigest (md5 E [])) @ ''_'' @ strftime_now E k @ ''.png''"

definition plot_path_at :: "env \<Rightarrow> nat \<Rightarrow> string" where
  "plot_path_at E k = os_path_join (TEMP_DIR E) (plot_name_at E k)"

text \<open>The working directory takes every plot: no \<^verbatim>\<open>open(output_path, "wb")\<close> fails.\<close>

definition plots_writable :: "env \<Rightarrow> bool" where
  "plots_writable E = (\<forall>k. open_error E (plot_path_at E k) ''wb'' = None)"

text \<open>The name line 66 gives the source file at the \<open>k\<close>-th reading of the clock.\<close>

definition main_filename_at :: "env \<Rightarrow> string \<Rightarrow> nat \<Rightarrow> string" where
  "main_filename_at E python_code k =
     take 8 (hexdigest (md5 E python_code)) @ ''_'' @ strftime_now E k @ ''.py''"

text \<open>
  What \<^verbatim>\<open>mkdtemp\<close> promises: when it returns a directory, that directory is new. Its name
  is a path without a final slash; it was no directory before and nothing on disk lies
  below it; the working directory and its plots are elsewhere.
\<close>

definition fresh_tmp :: "env \<Rightarrow> world \<Rightarrow> bool" where
  "fresh_tmp E w =
     (case mkdtemp E of
        Inl e \<Rightarrow> True
      | Inr d \<Rightarrow>
          d \<noteq> [] \<and> \<not> suffix ''/'' d \<and> d \<notin> dirs w \<and> d \<noteq> TEMP_DIR E
          \<and> \<not> below d (TEMP_DIR E)
          \<and> (\<forall>p. below d p \<longrightarrow> disk w p = None \<and> p \<notin> dirs w)
          \<and> (\<forall>k. \<not> below d (plot_path_at E k)))"

text \<open>The exception an outcome carries, if it is one.\<close>

fun raised :: "pyexc + 'a \<Rightarrow> pyexc option" where
  "raised (Inl e) = Some e"
| "raised (Inr x) = None"

text \<open>The request lines 72 to 87 build for a source file of that name and content.\<close>

definition sandbox_request :: "env \<Rightarrow> string \<Rightarrow> string \<Rightarrow> http_request" where
  "sandbox_request E main_filename content =
     \<lparr>url = SNEKBOX_URL,
      headers =
        [(''Content-Type'', ''application/json; charset=utf-8''),
         (''Content-Length'',
          str_of_nat (length (json_dumps E (payload main_filename content))))],
      body = json_dumps E (payload main_filename content)\<rparr>"

text \<open>
  The failures of a call, read off the world outside the relay and off the reply, in the
  order the pipeline meets them. In the loop over the files, whose plots take the readings
  of the clock from the \<open>k\<close>-th on: an entry with no path or a path that is no text, a
  plot file that cannot be opened, a plot entry with no content, a content that does not
  decode.
\<close>

fun loop_failure :: "env \<Rightarrow> json list \<Rightarrow> nat \<Rightarrow> pyexc option" where
  "loop_failure E [] k = None"
| "loop_failure E (file # rest) k =
     (case getitem file ''path'' of
        Inl e \<Rightarrow> Some e
      | Inr path \<Rightarrow>
          (case endswith path ''.png'' of
             Inl e \<Rightarrow> Some e
           | Inr is_png \<Rightarrow>
               if \<not> is_png then loop_failure E rest k
               else
                 (case open_error E (plot_path_at E k) ''wb'' of
                    Some e \<Rightarrow> Some e
                  | None \<Rightarrow>
                      (case getitem file ''content'' of
                         Inl e \<Rightarrow> Some e
                       | Inr content \<Rightarrow>
                           (case base64_b64decode E content of
                              Inl e \<Rightarrow> Some e
                            | Inr decoded \<Rightarrow> loop_failure E rest (Suc k))))))"

text \<open>
  In the reply: a reply that is no object, a stdout that is no text and, when the return
  code is zero, files that cannot be iterated or an entry the loop fails on.
\<close>

definition reply_failure :: "env \<Rightarrow> json \<Rightarrow> nat \<Rightarrow> pyexc option" where
  "reply_failure E result k =
     (case dict_get result ''returncode'' (JInt 0) of
        Inl e \<Rightarrow> Some e
      | Inr returncode \<Rightarrow>
          (case dict_get result ''stdout'' (JStr []) of
             Inl e \<Rightarrow> Some e
           | Inr raw_stdout \<Rightarrow>
               (case str_strip E raw_stdout of
                  Inl e \<Rightarrow> Some e
                | Inr stdout \<Rightarrow>
                    (case dict_get result ''files'' (JArr []) of
                       Inl e \<Rightarrow> Some e
                     | Inr files \<Rightarrow>
                         if \<not> eq_zero returncode \<or> \<not> truthy files then None
                         else
                           (case py_iter files of
                              Inl e \<Rightarrow> Some e
                            | Inr items \<Rightarrow> loop_failure E items k)))))"

text \<open>
  In the whole call: the working directory or the temporary directory cannot be made
  (file I/O); the temporary directory cannot be removed at the end, which replaces any
  failure met inside it; the source file cannot be opened for writing or for reading
  (file I/O); the Base64 text of the source does not decode; \<^verbatim>\<open>urlopen\<close> raises (network,
  such as a connection refused); the reply is no UTF-8 or no JSON (malformed response); or
  the reply fails as above (among which the Base64 of a plot that does not decode).
\<close>

definition pipeline_failure :: "env \<Rightarrow> string \<Rightarrow> world \<Rightarrow> pyexc option" where
  "pipeline_failure E python_code w =
     (case makedirs_error E (TEMP_DIR E) of
        Some e \<Rightarrow> Some e
      | None \<Rightarrow>
     (case mkdtemp E of
        Inl e \<Rightarrow> Some e
      | Inr temp_dir \<Rightarrow>
     (case cleanup_error E of
        Some e \<Rightarrow> Some e
      | None \<Rightarrow>
     (let main_filename = main_filename_at E python_code (ticks w);
          main_file_path = os_path_join temp_dir main_filename
      in
     (case open_error E main_file_path ''w'' of
        Some e \<Rightarrow> Some e
      | None \<Rightarrow>
     (case open_error E main_file_path ''rb'' of
        Some e \<Rightarrow> Some e
      | None \<Rightarrow>
     (case decode_utf8 E (b64encode E (strip E (dedent E python_code))) of
        Inl e \<Rightarrow> Some e
      | Inr content \<Rightarrow>
     (case urlopen E (sandbox_request E main_filename content) of
        Inl e \<Rightarrow> Some e
      | Inr reply \<Rightarrow>
     (case decode_utf8 E reply of
        Inl e \<Rightarrow> Some e
      | Inr text \<Rightarrow>
     (case json_loads E text of
        Inl e \<Rightarrow> Some e
      | Inr result \<Rightarrow> reply_failure E result (Suc (ticks w))))))))))))"

definition plot_keys :: "string set" where
  "plot_keys = {''output_type'', ''plot_data'', ''plot_path'', ''details''}"

section \<open>Sample worlds\<close>

text \<open>
  The examples below run the relay in a concrete world. Each table holds what CPython 3.11
  returns at the arguments the examples use: the MD5 digests of the empty text and of four
  one-line programs (the digests of \<^verbatim>\<open>print(890)\<close> and \<^verbatim>\<open>print(40914)\<close> agree on their first
  eight hexadecimal digits), the Base64 codes of the two programs sent and of the bytes
  \<^verbatim>\<open>hi\<close> and \<^verbatim>\<open>yo\<close> (the decoder skips a final line feed, so it takes the code of
  \<^verbatim>\<open>hi\<close> followed by one as well, and it rejects \<^verbatim>\<open>abc\<close>), and the text \<^verbatim>\<open>json.dumps\<close> gives the two payloads. The programs have no
  indentation, so \<^verbatim>\<open>dedent\<close> leaves them as they are; \<^verbatim>\<open>strip\<close> removes ASCII white space. The
  sandbox is given by the reply it sends (or the exception \<^verbatim>\<open>urlopen\<close> raises) and by what
  \<^verbatim>\<open>json.loads\<close> makes of that reply; the clock by its readings.
\<close>

definition sample_md5 :: "string \<Rightarrow> nat" where
  "sample_md5 s =
     (if s = [] then 0xd41d8cd98f00b204e9800998ecf8427e
      else if s = ''print(1)'' then 0x186bdbe41e79ea696410ba0a9e8d2762
      else if s = ''print(2)'' then 0x9edde4c293c025628eeee871e6d6b414
      else if s = ''print(890)'' then 0x1cb830d523860cdab3bc18ecef8b3fe4
      else if s = ''print(40914)'' then 0x1cb830d5f711d418e761556cebc0cd49
      else 0)"

definition sample_strip :: "string \<Rightarrow> string" where
  "sample_strip s =
     (let white = (\<lambda>c. c \<in> {CHR '' '', CHR 0x09, CHR 0x0A, CHR 0x0B, CHR 0x0C, CHR 0x0D})
      in rev (dropWhile white (rev (dropWhile white s))))"

definition sample_b64encode :: "string \<Rightarrow> string" where
  "sample_b64encode b =
     (if b = ''print(1)'' then ''cHJpbnQoMSk=''
      else if b = ''print(2)'' then ''cHJpbnQoMik=''
      else if b = ''hi'' then ''aGk=''
      else if b = ''yo'' then ''eW8=''
      else [])"

definition sample_b64decode :: "string \<Rightarrow> pyexc + string" where
  "sample_b64decode s =
     (if s = ''aGk='' then Inr ''hi''
      else if s = ''aGk=\<newline>'' then Inr ''hi''
      else if s = ''eW8='' then Inr ''yo''
      else Inl (PyExc ''Error'' ''Incorrect padding''))"

definition sample_body :: string where
  \<open>sample_body =
     ''{"args": ["186bdbe4_20261104_120000.py"], "files": [{"path": "186bdbe4_20261104_120000.py", "content": "cHJpbnQoMSk="}]}''\<close>

definition sample_body2 :: string where
  \<open>sample_body2 =
     ''{"args": ["9edde4c2_20261104_120000.py"], "files": [{"path": "9edde4c2_20261104_120000.py", "content": "cHJpbnQoMik="}]}''\<close>

definition sample_dumps :: "json \<Rightarrow> string" where
  "sample_dumps j =
     (if j = payload ''186bdbe4_20261104_120000.py'' ''cHJpbnQoMSk='' then sample_body
      else if j = payload ''9edde4c2_20261104_120000.py'' ''cHJpbnQoMik='' then sample_body2
      else ''null'')"

definition sample_env :: "(pyexc + string) \<Rightarrow> (pyexc + json) \<Rightarrow> (nat \<Rightarrow> string) \<Rightarrow> env" where
  "sample_env reply parsed clock =
     \<lparr>BASE_DIR = ''/srv/relay'',
      md5 = sample_md5,
      strftime_now = clock,
      dedent = (\<lambda>s. s),
      strip = sample_strip,
      decode_utf8 = Inr,
      b64encode = sample_b64encode,
      b64decode = sample_b64decode,
      json_dumps = sample_dumps,
      json_loads = (\<lambda>t. if reply = Inr t then parsed
                         else Inl (PyExc ''JSONDecodeError''
                                     ''Expecting value: line 1 column 1 (char 0)'')),
      makedirs_error = (\<lambda>p. None),
      mkdtemp = Inr ''/tmp/tmpq1w2e3r4'',
      open_error = (\<lambda>p m. None),
      cleanup_error = None,
      urlopen = (\<lambda>req. reply)\<rparr>"

definition sample_world :: world where
  "sample_world = \<lparr>disk = Map.empty, dirs = {''/srv/relay''}, posted = [], ticks = 0\<rparr>"

text \<open>All readings of the clock in one second, and a clock that ticks after the second reading.\<close>

definition one_second :: "nat \<Rightarrow> string" where
  "one_second k = ''20261104_120000''"

definition ticking :: "nat \<Rightarrow> string" where
  "ticking k = (if k < 2 then ''20261104_120000'' else ''20261104_120001'')"

text \<open>The state of the sample call of \<^verbatim>\<open>print(1)\<close> when the reply has been parsed.\<close>

definition sample_request :: http_request where
  "sample_request =
     \<lparr>url = ''http://localhost:8060/eval'',
      headers = [(''Content-Type'', ''application/json; charset=utf-8''),
                 (''Content-Length'', ''120'')],
      body = sample_body\<rparr>"

definition sample_sent :: world where
  "sample_sent =
     \<lparr>disk = [''/tmp/tmpq1w2e3r4/186bdbe4_20261104_120000.py'' \<mapsto> ''print(1)''],
      dirs = {''/tmp/tmpq1w2e3r4'', ''/srv/relay/temp'', ''/srv/relay''},
      posted = [sample_request],
      ticks = 1\<rparr>"

text \<open>
  Replies of the sandbox, as the text received and as \<^verbatim>\<open>json.loads\<close> reads it: a program
  that fails, one that leaves a file that is no plot, one that prints and plots, one that
  plots twice, one whose second plot does not decode, one whose file has no content, and
  one whose plot is Base64 followed by a line feed.
\<close>

definition exit7_reply :: string where
  \<open>exit7_reply =
     ''{"returncode": 7, "stdout": "boom'' @ [CHR 0x5C] @
     ''n", "files": [{"path": "fig.png", "content": "aGk="}]}''\<close>

definition exit7_parsed :: json where
  "exit7_parsed =
     JObj [(''returncode'', JInt 7),
           (''stdout'', JStr ''boom\<newline>''),
           (''files'', JArr [JObj [(''path'', JStr ''fig.png''), (''content'', JStr ''aGk='')]])]"

definition nopng_reply :: string where
  \<open>nopng_reply =
     ''{"returncode": 0, "stdout": "", "files": [{"path": "out.txt", "content": "aGk="}]}''\<close>

definition nopng_parsed :: json where
  "nopng_parsed =
     JObj [(''returncode'', JInt 0),
           (''stdout'', JStr []),
           (''files'', JArr [JObj [(''path'', JStr ''out.txt''), (''content'', JStr ''aGk='')]])]"

definition textplot_reply :: string where
  \<open>textplot_reply =
     ''{"returncode": 0, "stdout": "hello'' @ [CHR 0x5C] @
     ''n", "files": [{"path": "fig.png", "content": "aGk="}]}''\<close>

definition textplot_parsed :: json where
  "textplot_parsed =
     JObj [(''returncode'', JInt 0),
           (''stdout'', JStr ''hello\<newline>''),
           (''files'', JArr [JObj [(''path'', JStr ''fig.png''), (''content'', JStr ''aGk='')]])]"

definition twoplots_reply :: string where
  \<open>twoplots_reply =
     ''{"returncode": 0, "stdout": "", "files": [{"path": "a.png", "content": "aGk="}, {"path": "b.png", "content": "eW8="}]}''\<close>

definition twoplots_parsed :: json where
  "twoplots_parsed =
     JObj [(''returncode'', JInt 0),
           (''stdout'', JStr []),
           (''files'', JArr [JObj [(''path'', JStr ''a.png''), (''content'', JStr ''aGk='')],
                             JObj [(''path'', JStr ''b.png''), (''content'', JStr ''eW8='')]])]"

definition badplot_reply :: string where
  \<open>badplot_reply =
     ''{"returncode": 0, "stdout": "", "files": [{"path": "a.png", "content": "aGk="}, {"path": "b.png", "content": "abc"}]}''\<close>

definition badplot_parsed :: json where
  "badplot_parsed =
     JObj [(''returncode'', JInt 0),
           (''stdout'', JStr []),
           (''files'', JArr [JObj [(''path'', JStr ''a.png''), (''content'', JStr ''aGk='')],
                             JObj [(''path'', JStr ''b.png''), (''content'', JStr ''abc'')]])]"



text \<open>The same for the sample call of \<^verbatim>\<open>print(2)\<close>.\<close>

definition sample_request2 :: http_request where
  "sample_request2 =
     \<lparr>url = ''http://localhost:8060/eval'',
      headers = [(''Content-Type'', ''application/json; charset=utf-8''),
                 (''Content-Length'', ''120'')],
      body = sample_body2\<rparr>"

definition sample_sent2 :: world where
  "sample_sent2 =
     \<lparr>disk = [''/tmp/tmpq1w2e3r4/9edde4c2_20261104_120000.py'' \<mapsto> ''print(2)''],
      dirs = {''/tmp/tmpq1w2e3r4'', ''/srv/relay/temp'', ''/srv/relay''},
      posted = [sample_request2],
      ticks = 1\<rparr>"

definition linefeed_reply :: string where
  \<open>linefeed_reply =
     ''{"returncode": 0, "stdout": "", "files": [{"path": "fig.png", "content": "aGk='' @
     [CHR 0x5C] @ ''n"}]}''\<close>

definition linefeed_parsed :: json where
  "linefeed_parsed =
     JObj [(''returncode'', JInt 0),
           (''stdout'', JStr []),
           (''files'',
            JArr [JObj [(''path'', JStr ''fig.png''), (''content'', JStr ''aGk=\<newline>'')]])]"

text \<open>
  A working directory that cannot be written to: every \<^verbatim>\<open>open\<close> for writing bytes fails with
  the \<^verbatim>\<open>PermissionError\<close> of the operating system, whose text names the path.
\<close>

definition denied :: "string \<Rightarrow> pyexc" where
  "denied p =
     PyExc ''PermissionError'' (''[Errno 13] Permission denied: '' @ [CHR 0x27] @ p @ [CHR 0x27])"

definition readonly_env :: "(pyexc + string) \<Rightarrow> (pyexc + json) \<Rightarrow> (nat \<Rightarrow> string) \<Rightarrow> env" where
  "readonly_env reply parsed clock =
     (sample_env reply parsed clock)
       \<lparr>open_error := (\<lambda>p m. if m = ''wb'' then Some (denied p) else None)\<rparr>"

section \<open>Basic facts\<close>

lemma bind_io_lift_Inr [simp]: "bind_io (lift_io (Inr x)) f = f x"
  by (rule ext) (simp add: bind_io_def lift_io_def)

lemma bind_io_lift_Inl [simp]: "bind_io (lift_io (Inl e)) f w = (Inl e, w)"
  by (simp add: bind_io_def lift_io_def)

lemma bind_io_return [simp]: "bind_io (return_io x) f = f x"
  by (rule ext) (simp add: bind_io_def return_io_def)

lemma bind_io_Inr: "m w = (Inr x, w') \<Longrightarrow> bind_io m f w = f x w'"
  by (simp add: bind_io_def)

lemma try_body_after_request:
  assumes "request_phase E python_code w = (Inr (temp_dir, result), w1)"
  shows "try_body E python_code w =
           finally_io (build_response E result) (TemporaryDirectory_exit E temp_dir) w1"
  using assms
  by (auto simp: request_phase_def try_body_def bind_io_def finally_io_def return_io_def
           split: prod.splits sum.splits)

section \<open>The loop over the files\<close>

lemma png_entries_simps [simp]:
  "png_entries [] = []"
  "png_entries (f # fs) = (if png_entry f then f # png_entries fs else png_entries fs)"
  by (simp_all add: png_entries_def)

lemma png_entries_append [simp]: "png_entries (xs @ ys) = png_entries xs @ png_entries ys"
  by (simp add: png_entries_def)

lemma entries_ok_simps [simp]:
  "entries_ok E [] = True"
  "entries_ok E (f # fs) = (entry_ok E f \<and> entries_ok E fs)"
  by (simp_all add: entries_ok_def)

lemma entries_ok_append [simp]:
  "entries_ok E (xs @ ys) = (entries_ok E xs \<and> entries_ok E ys)"
  by (simp add: entries_ok_def)

lemma save_plot_other:
  assumes "entry_ok E file" "\<not> png_entry file"
  shows "save_plot E file response w = (Inr response, w)"
proof -
  obtain path where p: "getitem file ''path'' = Inr path" "endswith path ''.png'' = Inr False"
    using assms
    by (cases "getitem file ''path''"; cases "projr (getitem file ''path'')")
       (auto simp: entry_ok_def entry_error_def png_entry_def split: sum.splits if_splits)
  then show ?thesis by (simp add: save_plot_def return_io_def)
qed

lemma get_unique_filename_plot:
  "get_unique_filename E [] ''plot_'' ''.png'' w =
     (Inr (plot_name_at E (ticks w)), w\<lparr>ticks := Suc (ticks w)\<rparr>)"
  by (simp add: get_unique_filename_def plot_name_at_def Let_def)

lemma save_plot_png:
  assumes png: "png_entry file" and c: "getitem file ''content'' = Inr c"
    and bs: "base64_b64decode E c = Inr bs"
    and op: "open_error E (plot_path_at E (ticks w)) ''wb'' = None"
  shows "save_plot E file response w =
           (Inr (plot_fields response c (plot_path_at E (ticks w))),
            w\<lparr>ticks := Suc (ticks w), disk := (disk w)(plot_path_at E (ticks w) \<mapsto> bs)\<rparr>)"
proof -
  obtain p where p: "getitem file ''path'' = Inr (JStr p)" "suffix ''.png'' p"
    using png by (auto simp: png_entry_def split: sum.splits json.splits)
  show ?thesis
    unfolding save_plot_def
    using p c bs op
    by (simp add: bind_io_Inr [OF get_unique_filename_plot] Let_def
          plot_path_at_def [symmetric] bind_io_def open_write_def write_file_def
          return_io_def lift_io_def)
qed

lemma save_plots_append:
  "save_plots E (xs @ ys) response w =
     (case save_plots E xs response w of
        (Inl e, w') \<Rightarrow> (Inl e, w')
      | (Inr response', w') \<Rightarrow> save_plots E ys response' w')"
  by (induction xs arbitrary: response w) (auto split: prod.splits sum.splits)

lemma save_plots_others:
  assumes "\<forall>f \<in> set ys. entry_ok E f \<and> \<not> png_entry f"
  shows "save_plots E ys response w = (Inr response, w)"
  using assms by (induction ys) (auto simp: save_plot_other)


lemma plot_fields_other: "k \<notin> plot_keys \<Longrightarrow> plot_fields r c p k = r k"
  by (auto simp: plot_fields_def plot_keys_def)

lemma plot_fields_cong:
  assumes "\<forall>k. k \<notin> plot_keys \<longrightarrow> r' k = r k"
  shows "plot_fields r' c p = plot_fields r c p"
proof (rule ext)
  fix k show "plot_fields r' c p k = plot_fields r c p k"
    using assms by (cases "k \<in> plot_keys") (auto simp: plot_fields_def plot_keys_def)
qed

lemma entry_ok_png:
  assumes "entry_ok E f" "png_entry f"
  shows "\<exists>c bs. getitem f ''content'' = Inr c \<and> base64_b64decode E c = Inr bs"
  using assms
  by (cases "getitem f ''path''"; cases "projr (getitem f ''path'')")
     (auto simp: entry_ok_def entry_error_def png_entry_def split: sum.splits if_splits)

lemma save_plots_ok:
  assumes "entries_ok E xs" and "plots_writable E"
  shows "\<exists>r' w'. save_plots E xs r w = (Inr r', w')
           \<and> ticks w' = ticks w + length (png_entries xs)
           \<and> (\<forall>k. k \<notin> plot_keys \<longrightarrow> r' k = r k)
           \<and> dirs w' = dirs w \<and> posted w' = posted w
           \<and> (\<forall>p. disk w' p \<noteq> disk w p \<longrightarrow>
                  (\<exists>k. ticks w \<le> k \<and> k < ticks w' \<and> p = plot_path_at E k))"
  using assms
proof (induction xs arbitrary: r w)
  case Nil
  then show ?case by simp
next
  case (Cons f xs)
  show ?case
  proof (cases "png_entry f")
    case False
    then have step: "save_plot E f r w = (Inr r, w)"
      using Cons.prems by (simp add: save_plot_other)
    from Cons.IH [of r w] Cons.prems False step show ?thesis by simp
  next
    case True
    then obtain c bs where c: "getitem f ''content'' = Inr c" "base64_b64decode E c = Inr bs"
      using Cons.prems entry_ok_png [of E f] by auto
    let ?p = "plot_path_at E (ticks w)"
    let ?w1 = "w\<lparr>ticks := Suc (ticks w), disk := (disk w)(?p \<mapsto> bs)\<rparr>"
    have step: "save_plot E f r w = (Inr (plot_fields r c ?p), ?w1)"
      using True c Cons.prems(2) by (simp add: save_plot_png plots_writable_def)
    from Cons.prems have okxs: "entries_ok E xs" by simp
    from Cons.IH [of "plot_fields r c ?p" ?w1, OF okxs Cons.prems(2)]
    obtain r' w' where rest: "save_plots E xs (plot_fields r c ?p) ?w1 = (Inr r', w')"
      and t: "ticks w' = ticks ?w1 + length (png_entries xs)"
      and k: "\<forall>k. k \<notin> plot_keys \<longrightarrow> r' k = plot_fields r c ?p k"
      and d: "dirs w' = dirs ?w1" "posted w' = posted ?w1"
      and f: "\<forall>p. disk w' p \<noteq> disk ?w1 p \<longrightarrow>
                  (\<exists>k. ticks ?w1 \<le> k \<and> k < ticks w' \<and> p = plot_path_at E k)"
      by auto
    have frame: "\<forall>p. disk w' p \<noteq> disk w p \<longrightarrow>
                  (\<exists>k. ticks w \<le> k \<and> k < ticks w' \<and> p = plot_path_at E k)"
    proof (intro allI impI)
      fix p assume ne: "disk w' p \<noteq> disk w p"
      show "\<exists>k. ticks w \<le> k \<and> k < ticks w' \<and> p = plot_path_at E k"
      proof (cases "disk w' p = disk ?w1 p")
        case True
        with ne have "p = ?p" by (auto split: if_splits)
        with t show ?thesis by (intro exI [of _ "ticks w"]) simp
      next
        case False
        with f obtain k where "ticks ?w1 \<le> k" "k < ticks w'" "p = plot_path_at E k" by blast
        then show ?thesis by (intro exI [of _ k]) simp
      qed
    qed
    show ?thesis
      using step rest t k d frame True by (simp add: plot_fields_other)
  qed
qed

lemma save_plots_last:
  assumes ok: "entries_ok E entries" and wr: "plots_writable E"
    and ne: "png_entries entries \<noteq> []"
    and c: "getitem (last (png_entries entries)) ''content'' = Inr c"
    and bs: "base64_b64decode E c = Inr bs"
  shows "\<exists>w'. save_plots E entries r w =
             (Inr (plot_fields r c
                (plot_path_at E (ticks w + length (png_entries entries) - 1))), w')
           \<and> disk w' (plot_path_at E (ticks w + length (png_entries entries) - 1)) = Some bs
           \<and> ticks w' = ticks w + length (png_entries entries)
           \<and> dirs w' = dirs w \<and> posted w' = posted w"
proof -
  from ne have "\<exists>x \<in> set entries. png_entry x"
    unfolding png_entries_def by (metis filter_False)
  then obtain xs e ys where split: "entries = xs @ e # ys" "png_entry e"
      "\<forall>y \<in> set ys. \<not> png_entry y"
    using split_list_last_prop [of entries png_entry] by blast
  have fl: "png_entries entries = png_entries xs @ [e]"
    using split by (simp add: png_entries_def)
  then have last: "last (png_entries entries) = e" by simp
  have len: "length (png_entries entries) = Suc (length (png_entries xs))"
    using fl by simp
  from ok split have okxs: "entries_ok E xs"
    and okys: "\<forall>f \<in> set ys. entry_ok E f \<and> \<not> png_entry f"
    by (auto simp: entries_ok_def list_all_iff)
  from save_plots_ok [OF okxs wr, of r w]
  obtain r1 w1 where first: "save_plots E xs r w = (Inr r1, w1)"
    and t: "ticks w1 = ticks w + length (png_entries xs)"
    and k: "\<forall>k. k \<notin> plot_keys \<longrightarrow> r1 k = r k"
    and d: "dirs w1 = dirs w" "posted w1 = posted w"
    by blast
  let ?p = "plot_path_at E (ticks w1)"
  let ?w2 = "w1\<lparr>ticks := Suc (ticks w1), disk := (disk w1)(?p \<mapsto> bs)\<rparr>"
  have step: "save_plot E e r1 w1 = (Inr (plot_fields r1 c ?p), ?w2)"
    using split(2) c bs wr last by (simp add: save_plot_png plots_writable_def)
  have rest: "save_plots E ys (plot_fields r1 c ?p) ?w2 = (Inr (plot_fields r1 c ?p), ?w2)"
    using okys by (rule save_plots_others)
  have "save_plots E entries r w = (Inr (plot_fields r1 c ?p), ?w2)"
    unfolding split(1) save_plots_append using first step rest by simp
  moreover have "plot_fields r1 c ?p = plot_fields r c ?p"
    using k by (rule plot_fields_cong)
  moreover have "ticks w + length (png_entries entries) - 1 = ticks w1"
    using t len by simp
  ultimately show ?thesis
    using t len d by simp
qed

section \<open>Evaluating the sample call\<close>

lemma hex_digits_numeral:
  "hex_digits (numeral k) n = hex_digits (pred_numeral k) (n div 16) @ [hex_digit n]"
  by (simp only: numeral_eq_Suc [of k] hex_digits.simps)

lemma hex_digits_1: "hex_digits 1 n = [hex_digit n]"
  by (simp only: One_nat_def hex_digits.simps append_Nil)

lemma length_hex_digits [simp]: "length (hex_digits k n) = k"
  by (induction k arbitrary: n) auto

lemmas str_of_nat_numeral = str_of_nat.simps [of "numeral k" for k] str_of_nat.simps [of 0] str_of_nat.simps [of "Suc 0"]


lemma sample_env_sel [simp]:
  "BASE_DIR (sample_env r p c) = ''/srv/relay''"
  "md5 (sample_env r p c) = sample_md5"
  "strftime_now (sample_env r p c) = c"
  "dedent (sample_env r p c) = (\<lambda>s. s)"
  "strip (sample_env r p c) = sample_strip"
  "decode_utf8 (sample_env r p c) = Inr"
  "b64encode (sample_env r p c) = sample_b64encode"
  "b64decode (sample_env r p c) = sample_b64decode"
  "json_dumps (sample_env r p c) = sample_dumps"
  "json_loads (sample_env r p c) t =
     (if r = Inr t then p
      else Inl (PyExc ''JSONDecodeError'' ''Expecting value: line 1 column 1 (char 0)''))"
  "makedirs_error (sample_env r p c) = (\<lambda>p. None)"
  "mkdtemp (sample_env r p c) = Inr ''/tmp/tmpq1w2e3r4''"
  "open_error (sample_env r p c) = (\<lambda>p m. None)"
  "cleanup_error (sample_env r p c) = None"
  "urlopen (sample_env r p c) = (\<lambda>req. r)"
  by (simp_all add: sample_env_def)

lemma sample_TEMP_DIR [simp]: "TEMP_DIR (sample_env r p c) = ''/srv/relay/temp''"
  by (simp add: TEMP_DIR_def os_path_join_def suffix_to_prefix)

lemma length_sample_body [simp]: "length sample_body = 120"
  by (simp add: sample_body_def)

lemma sample_send_code:
  assumes "c 0 = ''20261104_120000''"
  shows "send_code (sample_env r p c) ''print(1)'' ''/tmp/tmpq1w2e3r4''
           \<lparr>disk = Map.empty, dirs = D, posted = [], ticks = 0\<rparr> =
         (case r of Inl e \<Rightarrow> Inl e | Inr t \<Rightarrow> p,
          \<lparr>disk = [''/tmp/tmpq1w2e3r4/186bdbe4_20261104_120000.py'' \<mapsto> ''print(1)''],
           dirs = D, posted = [sample_request], ticks = 1\<rparr>)"
proof -
  have name: "get_unique_filename (sample_env r p c) ''print(1)'' [] ''.py''
                \<lparr>disk = Map.empty, dirs = D, posted = [], ticks = 0\<rparr> =
              (Inr ''186bdbe4_20261104_120000.py'',
               \<lparr>disk = Map.empty, dirs = D, posted = [], ticks = 1\<rparr>)"
    using assms
    by (simp add: get_unique_filename_def sample_md5_def hexdigest_def hex_digit_def Let_def
          hex_digits_numeral hex_digits_1)
  have path: "os_path_join ''/tmp/tmpq1w2e3r4'' ''186bdbe4_20261104_120000.py'' =
                ''/tmp/tmpq1w2e3r4/186bdbe4_20261104_120000.py''"
    by (simp add: os_path_join_def suffix_to_prefix)
  show ?thesis
    unfolding send_code_def
    by (simp add: name path Let_def open_write_def write_file_def
          read_file_def bind_io_def lift_io_def http_post_def sample_strip_def
          sample_b64encode_def sample_dumps_def sample_request_def SNEKBOX_URL_def payload_def
          str_of_nat_numeral split: sum.splits)
qed


lemma sample_request_phase:
  assumes "c 0 = ''20261104_120000''"
  shows "request_phase (sample_env (Inr reply) (Inr parsed) c) ''print(1)'' sample_world =
           (Inr (''/tmp/tmpq1w2e3r4'', parsed), sample_sent)"
  unfolding request_phase_def sample_world_def
  by (simp add: bind_io_def os_makedirs_def TemporaryDirectory_enter_def return_io_def
        sample_send_code [of c, OF assms] sample_sent_def insert_commute)

section \<open>The translation of a reply\<close>

lemma build_response_success:
  assumes f: "reply_fields result returncode out entries" and z: "eq_zero returncode"
  shows "build_response E result w =
     (case save_plots E entries
             (if strip E out \<noteq> []
              then [''status'' \<mapsto> JStr ''success'', ''returncode'' \<mapsto> returncode]
                     (''output_type'' \<mapsto> JStr ''text'',
                      ''stdout'' \<mapsto> JStr (strip E out),
                      ''details'' \<mapsto> JStr ''Code executed successfully and produced text output'')
              else [''status'' \<mapsto> JStr ''success'', ''returncode'' \<mapsto> returncode]) w of
        (Inl e, w') \<Rightarrow> (Inl e, w')
      | (Inr r, w') \<Rightarrow>
          (Inr (if strip E out = [] \<and> entries = []
                then r(''output_type'' \<mapsto> JStr ''none'',
                       ''details'' \<mapsto> JStr ''Code executed successfully but produced no output'')
                else r), w'))"
proof -
  obtain kvs where r: "result = JObj kvs"
    using f by (cases result) (auto simp: reply_fields_def)
  show ?thesis
    using f z unfolding r reply_fields_def build_response_def
    by (cases "entries = []")
       (simp_all add: return_io_def Let_def bind_io_def lift_io_def
          split: prod.splits sum.splits)
qed

lemma execute_after_request:
  assumes req: "request_phase E python_code w = (Inr (temp_dir, result), w1)"
    and b: "build_response E result w1 = (Inr r, w2)"
    and cl: "cleanup_error E = None"
  shows "execute_python_code E python_code w = (r, rmtree temp_dir w2)"
  using b cl
  by (simp add: execute_python_code_def try_body_after_request [OF req]
        finally_io_def TemporaryDirectory_exit_def)


lemma sample_plot_path [simp]:
  "plot_path_at (sample_env r p c) k = ''/srv/relay/temp/plot_d41d8cd9_'' @ c k @ ''.png''"
  by (simp add: plot_path_at_def plot_name_at_def os_path_join_def sample_md5_def
        hexdigest_def hex_digit_def suffix_to_prefix hex_digits_numeral hex_digits_1)

lemma sample_plots_writable [simp]: "plots_writable (sample_env r p c)"
  by (simp add: plots_writable_def)

lemma one_second_request_phase:
  "request_phase (sample_env (Inr reply) (Inr parsed) one_second) ''print(1)'' sample_world =
     (Inr (''/tmp/tmpq1w2e3r4'', parsed), sample_sent)"
  by (rule sample_request_phase) (simp add: one_second_def)

text \<open>
  Claim C2. A reply whose return code is not zero gives the result of an execution error:
  status error, the return code, the type \<^verbatim>\<open>execution_error\<close> and the trimmed stdout as the
  message, and nothing else; the files of the reply are not looked at, and the world is the
  one the reply arrived in, less the temporary directory: no plot is written.
\<close>

theorem nonzero_returncode_is_execution_error:
  assumes req: "request_phase E python_code w = (Inr (temp_dir, result), w1)"
    and rc: "dict_get result ''returncode'' (JInt 0) = Inr returncode"
    and nz: "\<not> eq_zero returncode"
    and out: "dict_get result ''stdout'' (JStr []) = Inr (JStr out)"
    and cl: "cleanup_error E = None"
  shows "execute_python_code E python_code w =
           ([''status'' \<mapsto> JStr ''error'',
             ''returncode'' \<mapsto> returncode,
             ''error_type'' \<mapsto> JStr ''execution_error'',
             ''error_message'' \<mapsto> JStr (strip E out),
             ''details'' \<mapsto> JStr ''Code execution encountered syntax error or runtime error''],
            rmtree temp_dir w1)"
proof -
  obtain kvs where r: "result = JObj kvs" using rc by (cases result) auto
  have "build_response E result w1 =
          (Inr [''status'' \<mapsto> JStr ''error'',
                ''returncode'' \<mapsto> returncode,
                ''error_type'' \<mapsto> JStr ''execution_error'',
                ''error_message'' \<mapsto> JStr (strip E out),
                ''details'' \<mapsto> JStr ''Code execution encountered syntax error or runtime error''],
           w1)"
    using rc nz out unfolding r build_response_def
    by (simp add: return_io_def Let_def)
  then show ?thesis using cl by (rule execute_after_request [OF req])
qed

theorem nonzero_returncode_witness:
  "execute_python_code (sample_env (Inr exit7_reply) (Inr exit7_parsed) one_second)
       ''print(1)'' sample_world =
     ([''status'' \<mapsto> JStr ''error'',
       ''returncode'' \<mapsto> JInt 7,
       ''error_type'' \<mapsto> JStr ''execution_error'',
       ''error_message'' \<mapsto> JStr ''boom'',
       ''details'' \<mapsto> JStr ''Code execution encountered syntax error or runtime error''],
      rmtree ''/tmp/tmpq1w2e3r4'' sample_sent)"
proof -
  have rc: "dict_get exit7_parsed ''returncode'' (JInt 0) = Inr (JInt 7)"
    and out: "dict_get exit7_parsed ''stdout'' (JStr []) = Inr (JStr ''boom\<newline>'')"
    by (simp_all add: exit7_parsed_def)
  from nonzero_returncode_is_execution_error [OF one_second_request_phase rc _ out]
  show ?thesis by (simp add: sample_strip_def)
qed

lemma save_plots_no_png:
  assumes "entries_ok E entries" "png_entries entries = []"
  shows "save_plots E entries r w = (Inr r, w)"
proof -
  have "\<forall>f \<in> set entries. entry_ok E f \<and> \<not> png_entry f"
    using assms by (auto simp: entries_ok_def list_all_iff png_entries_def filter_empty_conv)
  then show ?thesis by (rule save_plots_others)
qed

lemma success_without_output:
  assumes req: "request_phase E python_code w = (Inr (temp_dir, result), w1)"
    and f: "reply_fields result returncode out entries"
    and z: "eq_zero returncode"
    and s: "strip E out = []"
    and ne: "entries \<noteq> []"
    and png: "png_entries entries = []"
    and ok: "entries_ok E entries"
    and cl: "cleanup_error E = None"
  shows "execute_python_code E python_code w =
           ([''status'' \<mapsto> JStr ''success'', ''returncode'' \<mapsto> returncode],
            rmtree temp_dir w1)"
proof -
  have "build_response E result w1 =
          (Inr [''status'' \<mapsto> JStr ''success'', ''returncode'' \<mapsto> returncode], w1)"
    using s ne by (simp add: build_response_success [OF f z] save_plots_no_png [OF ok png])
  then show ?thesis using cl by (rule execute_after_request [OF req])
qed

lemma sample_png_entry [simp]:
  "png_entry (JObj ((''path'', JStr p) # kvs)) = suffix ''.png'' p"
  by (simp add: png_entry_def)

lemma sample_entry_error [simp]:
  "entry_error E (JObj [(''path'', JStr p), (''content'', c)]) =
     (if suffix ''.png'' p
      then (case base64_b64decode E c of Inl e \<Rightarrow> Some e | Inr d \<Rightarrow> None) else None)"
  by (simp add: entry_error_def)

text \<open>
  Claim C3, at the reply \<^verbatim>\<open>{"returncode": 0, "stdout": "", "files": [{"path": "out.txt",
  "content": "aGk="}]}\<close>: the program succeeded, printed nothing and left one file that is no
  plot. None of the three branches applies, and the result has a status and a return code
  but no \<^verbatim>\<open>output_type\<close>.
\<close>

theorem success_without_output_type:
  "fst (execute_python_code (sample_env (Inr nopng_reply) (Inr nopng_parsed) one_second)
          ''print(1)'' sample_world) =
     [''status'' \<mapsto> JStr ''success'', ''returncode'' \<mapsto> JInt 0]"
proof -
  have f: "reply_fields nopng_parsed (JInt 0) []
             [JObj [(''path'', JStr ''out.txt''), (''content'', JStr ''aGk='')]]"
    by (simp add: reply_fields_def nopng_parsed_def)
  have "execute_python_code (sample_env (Inr nopng_reply) (Inr nopng_parsed) one_second)
          ''print(1)'' sample_world =
        ([''status'' \<mapsto> JStr ''success'', ''returncode'' \<mapsto> JInt 0],
         rmtree ''/tmp/tmpq1w2e3r4'' sample_sent)"
    by (rule success_without_output [OF one_second_request_phase f])
       (simp_all add: sample_strip_def entry_ok_def suffix_to_prefix)
  then show ?thesis by simp
qed

lemma plot_of_last_png:
  assumes req: "request_phase E python_code w = (Inr (temp_dir, result), w1)"
    and f: "reply_fields result returncode out entries"
    and z: "eq_zero returncode"
    and png: "png_entries entries \<noteq> []"
    and c: "getitem (last (png_entries entries)) ''content'' = Inr c"
    and ok: "entries_ok E entries"
    and wr: "plots_writable E" and cl: "cleanup_error E = None"
  shows "\<exists>bs w2. execute_python_code E python_code w =
            (plot_fields
               (if strip E out \<noteq> []
                then [''status'' \<mapsto> JStr ''success'', ''returncode'' \<mapsto> returncode]
                       (''output_type'' \<mapsto> JStr ''text'',
                        ''stdout'' \<mapsto> JStr (strip E out),
                        ''details'' \<mapsto> JStr ''Code executed successfully and produced text output'')
                else [''status'' \<mapsto> JStr ''success'', ''returncode'' \<mapsto> returncode])
               c (plot_path_at E (ticks w1 + length (png_entries entries) - 1)),
             rmtree temp_dir w2)
          \<and> base64_b64decode E c = Inr bs
          \<and> disk w2 (plot_path_at E (ticks w1 + length (png_entries entries) - 1)) = Some bs"
proof -
  let ?e = "last (png_entries entries)"
  have "?e \<in> set entries" "png_entry ?e"
    using png last_in_set [of "png_entries entries"] by (auto simp: png_entries_def)
  then obtain c' bs where "getitem ?e ''content'' = Inr c'" "base64_b64decode E c' = Inr bs"
    using ok entry_ok_png [of E ?e] by (auto simp: entries_ok_def list_all_iff)
  with c have bs: "base64_b64decode E c = Inr bs" by simp
  let ?r0 = "if strip E out \<noteq> []
              then [''status'' \<mapsto> JStr ''success'', ''returncode'' \<mapsto> returncode]
                     (''output_type'' \<mapsto> JStr ''text'',
                      ''stdout'' \<mapsto> JStr (strip E out),
                      ''details'' \<mapsto> JStr ''Code executed successfully and produced text output'')
              else [''status'' \<mapsto> JStr ''success'', ''returncode'' \<mapsto> returncode]"
  let ?p = "plot_path_at E (ticks w1 + length (png_entries entries) - 1)"
  from save_plots_last [OF ok wr png c bs, of ?r0 w1]
  obtain w2 where loop: "save_plots E entries ?r0 w1 = (Inr (plot_fields ?r0 c ?p), w2)"
    and d: "disk w2 ?p = Some bs"
    by blast
  have ne: "entries \<noteq> []" using png by auto
  have "build_response E result w1 = (Inr (plot_fields ?r0 c ?p), w2)"
    using loop ne by (simp add: build_response_success [OF f z])
  from execute_after_request [OF req this cl] d bs show ?thesis
    by (intro exI [of _ bs] exI [of _ w2]) simp
qed

text \<open>
  Claim C4. When the return code is zero, the trimmed stdout is not empty and the files
  hold an entry whose path ends in \<^verbatim>\<open>.png\<close>, the text branch and the plot branch both
  apply: the result keeps the stdout the text branch stored, gets the plot's data and
  path, and its \<^verbatim>\<open>output_type\<close> and \<^verbatim>\<open>details\<close>, first set for a text, are overwritten
  for a plot. The reply is one the loop passes: its entries are in order and the working
  directory takes the plots.
\<close>

theorem text_and_plot_both_apply:
  assumes req: "request_phase E python_code w = (Inr (temp_dir, result), w1)"
    and f: "reply_fields result returncode out entries"
    and z: "eq_zero returncode"
    and s: "strip E out \<noteq> []"
    and png: "png_entries entries \<noteq> []"
    and c: "getitem (last (png_entries entries)) ''content'' = Inr c"
    and ok: "entries_ok E entries"
    and wr: "plots_writable E" and cl: "cleanup_error E = None"
  shows "fst (execute_python_code E python_code w) =
           [''status'' \<mapsto> JStr ''success'',
            ''returncode'' \<mapsto> returncode,
            ''output_type'' \<mapsto> JStr ''text'',
            ''stdout'' \<mapsto> JStr (strip E out),
            ''details'' \<mapsto> JStr ''Code executed successfully and produced text output'',
            ''output_type'' \<mapsto> JStr ''plot'',
            ''plot_data'' \<mapsto> c,
            ''plot_path'' \<mapsto> JStr (plot_path_at E (ticks w1 + length (png_entries entries) - 1)),
            ''details'' \<mapsto> JStr ''Code executed successfully and generated a plot'']
       \<and> fst (execute_python_code E python_code w) ''output_type'' = Some (JStr ''plot'')
       \<and> fst (execute_python_code E python_code w) ''stdout'' = Some (JStr (strip E out))"
  using plot_of_last_png [OF req f z png c ok wr cl] s
  by (auto simp: plot_fields_def)

theorem text_and_plot_witness:
  "fst (execute_python_code (sample_env (Inr textplot_reply) (Inr textplot_parsed) one_second)
          ''print(1)'' sample_world) =
     [''status'' \<mapsto> JStr ''success'',
      ''returncode'' \<mapsto> JInt 0,
      ''stdout'' \<mapsto> JStr ''hello'',
      ''output_type'' \<mapsto> JStr ''plot'',
      ''plot_data'' \<mapsto> JStr ''aGk='',
      ''plot_path'' \<mapsto> JStr ''/srv/relay/temp/plot_d41d8cd9_20261104_120000.png'',
      ''details'' \<mapsto> JStr ''Code executed successfully and generated a plot'']"
proof -
  have f: "reply_fields textplot_parsed (JInt 0) ''hello\<newline>''
             [JObj [(''path'', JStr ''fig.png''), (''content'', JStr ''aGk='')]]"
    by (simp add: reply_fields_def textplot_parsed_def)
  have "fst (execute_python_code (sample_env (Inr textplot_reply) (Inr textplot_parsed) one_second)
          ''print(1)'' sample_world) ''stdout'' = Some (JStr ''hello'')
      \<and> fst (execute_python_code (sample_env (Inr textplot_reply) (Inr textplot_parsed) one_second)
          ''print(1)'' sample_world) =
     [''status'' \<mapsto> JStr ''success'',
      ''returncode'' \<mapsto> JInt 0,
      ''output_type'' \<mapsto> JStr ''text'',
      ''stdout'' \<mapsto> JStr ''hello'',
      ''details'' \<mapsto> JStr ''Code executed successfully and produced text output'',
      ''output_type'' \<mapsto> JStr ''plot'',
      ''plot_data'' \<mapsto> JStr ''aGk='',
      ''plot_path'' \<mapsto> JStr ''/srv/relay/temp/plot_d41d8cd9_20261104_120000.png'',
      ''details'' \<mapsto> JStr ''Code executed successfully and generated a plot'']"
    using text_and_plot_both_apply [OF one_second_request_phase [of textplot_reply] f,
        where c = "JStr ''aGk=''"]
    by (simp add: sample_strip_def entry_ok_def suffix_to_prefix sample_b64decode_def
          sample_sent_def one_second_def)
  then show ?thesis by (auto simp: fun_eq_iff)
qed

lemma ticking_request_phase:
  "request_phase (sample_env (Inr reply) (Inr parsed) ticking) ''print(1)'' sample_world =
     (Inr (''/tmp/tmpq1w2e3r4'', parsed), sample_sent)"
  by (rule sample_request_phase) (simp add: ticking_def)

text \<open>
  Claim C5. When the return code is zero and the last entry of the files whose path ends
  in \<^verbatim>\<open>.png\<close> carries a text \<open>content\<close> that \<^verbatim>\<open>b64decode\<close> takes, the result is a plot, its
  \<^verbatim>\<open>plot_data\<close> is that text unchanged, and after the call the file at its \<^verbatim>\<open>plot_path\<close> holds
  the bytes the text decodes to. \<^verbatim>\<open>plot_data\<close> is the Base64 code of the bytes found there
  exactly when the text is the code of the bytes it decodes to, which the decoder does not
  require. The reply is one the loop passes, and the temporary directory, which the call
  removes at its end, is not above the plot.
\<close>

theorem plot_file_holds_decoded_content:
  assumes req: "request_phase E python_code w = (Inr (temp_dir, result), w1)"
    and f: "reply_fields result returncode out entries"
    and z: "eq_zero returncode"
    and png: "png_entries entries \<noteq> []"
    and c: "getitem (last (png_entries entries)) ''content'' = Inr (JStr content)"
    and bs: "b64decode E content = Inr decoded"
    and ok: "entries_ok E entries"
    and wr: "plots_writable E" and cl: "cleanup_error E = None"
    and out: "\<not> below temp_dir (plot_path_at E (ticks w1 + length (png_entries entries) - 1))"
  shows "fst (execute_python_code E python_code w) ''output_type'' = Some (JStr ''plot'')
       \<and> fst (execute_python_code E python_code w) ''plot_data'' = Some (JStr content)
       \<and> fst (execute_python_code E python_code w) ''plot_path'' =
            Some (JStr (plot_path_at E (ticks w1 + length (png_entries entries) - 1)))
       \<and> disk (snd (execute_python_code E python_code w))
            (plot_path_at E (ticks w1 + length (png_entries entries) - 1)) = Some decoded
       \<and> (fst (execute_python_code E python_code w) ''plot_data'' =
            Some (JStr (b64encode E decoded)) \<longleftrightarrow> b64encode E decoded = content)"
  using plot_of_last_png [OF req f z png c ok wr cl] bs out
  by (auto simp: plot_fields_def rmtree_def)

theorem plot_file_witness:
  "fst (execute_python_code (sample_env (Inr textplot_reply) (Inr textplot_parsed) one_second)
          ''print(1)'' sample_world) ''output_type'' = Some (JStr ''plot'')
   \<and> fst (execute_python_code (sample_env (Inr textplot_reply) (Inr textplot_parsed) one_second)
          ''print(1)'' sample_world) ''plot_data'' = Some (JStr ''aGk='')
   \<and> fst (execute_python_code (sample_env (Inr textplot_reply) (Inr textplot_parsed) one_second)
          ''print(1)'' sample_world) ''plot_path'' =
         Some (JStr ''/srv/relay/temp/plot_d41d8cd9_20261104_120000.png'')
   \<and> disk (snd (execute_python_code (sample_env (Inr textplot_reply) (Inr textplot_parsed) one_second)
          ''print(1)'' sample_world)) ''/srv/relay/temp/plot_d41d8cd9_20261104_120000.png'' =
         Some ''hi''
   \<and> sample_b64decode ''aGk='' = Inr ''hi''
   \<and> sample_b64encode ''hi'' = ''aGk=''"
proof -
  have f: "reply_fields textplot_parsed (JInt 0) ''hello\<newline>''
             [JObj [(''path'', JStr ''fig.png''), (''content'', JStr ''aGk='')]]"
    by (simp add: reply_fields_def textplot_parsed_def)
  from plot_file_holds_decoded_content [OF one_second_request_phase [of textplot_reply] f,
      where content = "''aGk=''" and decoded = "''hi''"]
  show ?thesis
    by (simp add: entry_ok_def suffix_to_prefix sample_b64decode_def sample_b64encode_def
          sample_sent_def one_second_def below_def)
qed

text \<open>
  The decoder passes over a line feed after the padding: the text \<^verbatim>\<open>aGk=\<close> followed by a
  line feed decodes to \<^verbatim>\<open>hi\<close>, whose code is \<^verbatim>\<open>aGk=\<close>. The call for such a reply returns the
  text with its line feed as \<^verbatim>\<open>plot_data\<close>, which is not the code of the two bytes it has
  written at \<^verbatim>\<open>plot_path\<close>.
\<close>

theorem plot_data_not_canonical:
  "sample_b64decode ''aGk=\<newline>'' = Inr ''hi''
   \<and> fst (execute_python_code (sample_env (Inr linefeed_reply) (Inr linefeed_parsed) one_second)
          ''print(1)'' sample_world) ''output_type'' = Some (JStr ''plot'')
   \<and> fst (execute_python_code (sample_env (Inr linefeed_reply) (Inr linefeed_parsed) one_second)
          ''print(1)'' sample_world) ''plot_data'' = Some (JStr ''aGk=\<newline>'')
   \<and> fst (execute_python_code (sample_env (Inr linefeed_reply) (Inr linefeed_parsed) one_second)
          ''print(1)'' sample_world) ''plot_path'' =
         Some (JStr ''/srv/relay/temp/plot_d41d8cd9_20261104_120000.png'')
   \<and> disk (snd (execute_python_code (sample_env (Inr linefeed_reply) (Inr linefeed_parsed) one_second)
          ''print(1)'' sample_world)) ''/srv/relay/temp/plot_d41d8cd9_20261104_120000.png'' =
         Some ''hi''
   \<and> sample_b64encode ''hi'' = ''aGk=''
   \<and> fst (execute_python_code (sample_env (Inr linefeed_reply) (Inr linefeed_parsed) one_second)
          ''print(1)'' sample_world) ''plot_data'' \<noteq> Some (JStr (sample_b64encode ''hi''))"
proof -
  have f: "reply_fields linefeed_parsed (JInt 0) []
             [JObj [(''path'', JStr ''fig.png''), (''content'', JStr ''aGk=\<newline>'')]]"
    by (simp add: reply_fields_def linefeed_parsed_def)
  from plot_of_last_png [OF one_second_request_phase [of linefeed_reply] f,
      where c = "JStr ''aGk=\<newline>''"]
  show ?thesis
    by (auto simp: entry_ok_def suffix_to_prefix sample_b64decode_def sample_b64encode_def
          sample_sent_def one_second_def below_def rmtree_def plot_fields_def)
qed

text \<open>
  Claim C6. When the return code is zero and several entries of the files have a path
  ending in \<^verbatim>\<open>.png\<close>, the plot fields of the result are those of the last of them in the
  order of the list: its content as \<^verbatim>\<open>plot_data\<close>, and as \<^verbatim>\<open>plot_path\<close> the path made at the
  reading of the clock taken for it, one reading for each such entry after those the
  request took. The reply is one the loop passes.
\<close>

theorem last_png_wins:
  assumes req: "request_phase E python_code w = (Inr (temp_dir, result), w1)"
    and f: "reply_fields result returncode out entries"
    and z: "eq_zero returncode"
    and png: "png_entries entries \<noteq> []"
    and c: "getitem (last (png_entries entries)) ''content'' = Inr c"
    and ok: "entries_ok E entries"
    and wr: "plots_writable E" and cl: "cleanup_error E = None"
  shows "fst (execute_python_code E python_code w) ''output_type'' = Some (JStr ''plot'')
       \<and> fst (execute_python_code E python_code w) ''plot_data'' = Some c
       \<and> fst (execute_python_code E python_code w) ''plot_path'' =
            Some (JStr (plot_path_at E (ticks w1 + length (png_entries entries) - 1)))"
  using plot_of_last_png [OF req f z png c ok wr cl]
  by (auto simp: plot_fields_def)

theorem last_png_wins_witness:
  "fst (execute_python_code (sample_env (Inr twoplots_reply) (Inr twoplots_parsed) ticking)
          ''print(1)'' sample_world) ''output_type'' = Some (JStr ''plot'')
   \<and> fst (execute_python_code (sample_env (Inr twoplots_reply) (Inr twoplots_parsed) ticking)
          ''print(1)'' sample_world) ''plot_data'' = Some (JStr ''eW8='')
   \<and> fst (execute_python_code (sample_env (Inr twoplots_reply) (Inr twoplots_parsed) ticking)
          ''print(1)'' sample_world) ''plot_path'' =
         Some (JStr ''/srv/relay/temp/plot_d41d8cd9_20261104_120001.png'')"
proof -
  have f: "reply_fields twoplots_parsed (JInt 0) []
             [JObj [(''path'', JStr ''a.png''), (''content'', JStr ''aGk='')],
              JObj [(''path'', JStr ''b.png''), (''content'', JStr ''eW8='')]]"
    by (simp add: reply_fields_def twoplots_parsed_def)
  from last_png_wins [OF ticking_request_phase [of twoplots_reply] f,
      where c = "JStr ''eW8=''"]
  show ?thesis
    by (simp add: entry_ok_def suffix_to_prefix sample_b64decode_def
          sample_sent_def ticking_def)
qed

section \<open>What a call changes\<close>

lemma save_plot_frame:
  assumes "save_plot E file r w = (res, w')"
  shows "posted w' = posted w \<and> dirs w' = dirs w
       \<and> ticks w \<le> ticks w' \<and> ticks w' \<le> Suc (ticks w)
       \<and> (\<forall>p. disk w' p \<noteq> disk w p \<longrightarrow> p = plot_path_at E (ticks w) \<and> ticks w' = Suc (ticks w))
       \<and> dom (disk w) \<subseteq> dom (disk w')"
proof (cases "getitem file ''path''")
  case (Inl e)
  with assms show ?thesis by (auto simp: save_plot_def)
next
  case (Inr path)
  show ?thesis
  proof (cases "endswith path ''.png''")
    case (Inl e)
    with Inr assms show ?thesis by (auto simp: save_plot_def)
  next
    case is_png: (Inr b)
    show ?thesis
    proof (cases b)
      case False
      with Inr is_png assms show ?thesis by (auto simp: save_plot_def return_io_def)
    next
      case True
      with Inr is_png assms show ?thesis
        unfolding save_plot_def
        by (auto simp: bind_io_def get_unique_filename_plot Let_def plot_path_at_def
              open_write_def write_file_def lift_io_def return_io_def
              split: option.splits sum.splits prod.splits if_splits)
    qed
  qed
qed

lemma save_plots_frame:
  assumes "save_plots E xs r w = (res, w')"
  shows "posted w' = posted w \<and> dirs w' = dirs w \<and> ticks w \<le> ticks w'
       \<and> ticks w' \<le> ticks w + length xs
       \<and> (\<forall>p. disk w' p \<noteq> disk w p \<longrightarrow> (\<exists>k. ticks w \<le> k \<and> k < ticks w' \<and> p = plot_path_at E k))
       \<and> dom (disk w) \<subseteq> dom (disk w')"
  using assms
proof (induction xs arbitrary: r w)
  case Nil
  then show ?case by auto
next
  case (Cons f xs)
  obtain res1 w1 where step: "save_plot E f r w = (res1, w1)" by (cases "save_plot E f r w")
  note fr = save_plot_frame [OF step]
  show ?case
  proof (cases res1)
    case (Inl e)
    with step Cons.prems have "w' = w1" by simp
    with fr show ?thesis by auto
  next
    case (Inr r1)
    with step Cons.prems have rest: "save_plots E xs r1 w1 = (res, w')" by simp
    note ih = Cons.IH [OF rest]
    have "\<forall>p. disk w' p \<noteq> disk w p \<longrightarrow> (\<exists>k. ticks w \<le> k \<and> k < ticks w' \<and> p = plot_path_at E k)"
    proof (intro allI impI)
      fix p assume ne: "disk w' p \<noteq> disk w p"
      show "\<exists>k. ticks w \<le> k \<and> k < ticks w' \<and> p = plot_path_at E k"
      proof (cases "disk w' p = disk w1 p")
        case True
        with ne have "disk w1 p \<noteq> disk w p" by simp
        with fr have "p = plot_path_at E (ticks w)" "ticks w1 = Suc (ticks w)" by auto
        with ih show ?thesis by (intro exI [of _ "ticks w"]) auto
      next
        case False
        with ih obtain k where "ticks w1 \<le> k" "k < ticks w'" "p = plot_path_at E k" by blast
        with fr show ?thesis by (intro exI [of _ k]) auto
      qed
    qed
    moreover have "dom (disk w) \<subseteq> dom (disk w')"
      using fr ih by (meson subset_trans)
    moreover have "posted w' = posted w" "dirs w' = dirs w" "ticks w \<le> ticks w'"
      "ticks w' \<le> ticks w + length (f # xs)"
      using fr ih by auto
    ultimately show ?thesis by blast
  qed
qed

lemma build_response_frame:
  assumes "build_response E result w = (res, w')"
  shows "posted w' = posted w \<and> dirs w' = dirs w \<and> ticks w \<le> ticks w'
       \<and> (\<forall>p. disk w' p \<noteq> disk w p \<longrightarrow> (\<exists>k. ticks w \<le> k \<and> k < ticks w' \<and> p = plot_path_at E k))
       \<and> dom (disk w) \<subseteq> dom (disk w')"
proof -
  have same: "w' = w \<Longrightarrow> ?thesis" by auto
  have loop: "\<And>xs r res1. save_plots E xs r w = (res1, w') \<Longrightarrow> ?thesis"
    using save_plots_frame by blast
  show ?thesis
  proof (rule ccontr)
    assume neg: "\<not> ?thesis"
    then have ne: "w' \<noteq> w" using same by blast
    have nl: "\<And>xs r res1. save_plots E xs r w \<noteq> (res1, w')" using loop neg by blast
    from assms ne nl show False
      unfolding build_response_def
      by (auto simp: bind_io_def lift_io_def return_io_def Let_def
            split: sum.splits prod.splits if_splits)
  qed
qed

lemma try_body_unfold:
  "try_body E python_code w =
     (case makedirs_error E (TEMP_DIR E) of
        Some e \<Rightarrow> (Inl e, w)
      | None \<Rightarrow>
          (case mkdtemp E of
             Inl e \<Rightarrow> (Inl e, w\<lparr>dirs := insert (TEMP_DIR E) (dirs w)\<rparr>)
           | Inr d \<Rightarrow>
               (case bind_io (send_code E python_code d) (build_response E)
                       (w\<lparr>dirs := insert d (insert (TEMP_DIR E) (dirs w))\<rparr>) of
                  (r, w2) \<Rightarrow>
                    (case cleanup_error E of
                       Some e \<Rightarrow> (Inl e, w2)
                     | None \<Rightarrow> (r, rmtree d w2)))))"
  by (simp add: try_body_def bind_io_def os_makedirs_def TemporaryDirectory_enter_def
        finally_io_def TemporaryDirectory_exit_def
      split: option.splits sum.splits prod.splits)

lemma get_unique_filename_main:
  "get_unique_filename E python_code [] ''.py'' w =
     (Inr (main_filename_at E python_code (ticks w)), w\<lparr>ticks := Suc (ticks w)\<rparr>)"
  by (simp add: get_unique_filename_def main_filename_at_def Let_def)

lemma send_code_frame:
  assumes "send_code E python_code temp_dir w = (res, w')"
  shows "dirs w' = dirs w \<and> ticks w' = Suc (ticks w)
       \<and> (\<forall>p. disk w' p \<noteq> disk w p \<longrightarrow>
              p = os_path_join temp_dir (main_filename_at E python_code (ticks w)))
       \<and> (posted w' = posted w
          \<or> (\<exists>content. decode_utf8 E (b64encode E (strip E (dedent E python_code))) = Inr content
               \<and> posted w' = posted w @
                   [\<lparr>url = SNEKBOX_URL,
                     headers =
                       [(''Content-Type'', ''application/json; charset=utf-8''),
                        (''Content-Length'',
                         str_of_nat (length (json_dumps E
                           (payload (main_filename_at E python_code (ticks w)) content))))],
                     body = json_dumps E
                           (payload (main_filename_at E python_code (ticks w)) content)\<rparr>]))"
  using assms unfolding send_code_def
  by (auto simp: bind_io_def get_unique_filename_main Let_def open_write_def write_file_def
        read_file_def lift_io_def http_post_def
      split: option.splits sum.splits prod.splits if_splits)

section \<open>The source file lies in the temporary directory\<close>

lemma hex_digit_in: "hex_digit d \<in> set ''0123456789abcdef''"
  unfolding hex_digit_def by (rule nth_mem) simp

lemma set_hex_digits: "set (hex_digits k n) \<subseteq> set ''0123456789abcdef''"
  using hex_digit_in by (induction k arbitrary: n) auto

lemma main_filename_no_slash: "\<not> prefix ''/'' (main_filename_at E python_code k)"
proof
  assume "prefix ''/'' (main_filename_at E python_code k)"
  then obtain rest where eq: "main_filename_at E python_code k = CHR ''/'' # rest"
    by (auto simp: prefix_def)
  let ?h = "take 8 (hexdigest (md5 E python_code))"
  have "length ?h = 8" by (simp add: hexdigest_def)
  then obtain c cs where h: "?h = c # cs" by (cases ?h) auto
  with eq have "c = CHR ''/''" by (simp add: main_filename_at_def)
  moreover have "c \<in> set (hexdigest (md5 E python_code))"
    using h by (metis in_set_takeD list.set_intros(1))
  ultimately show False
    using set_hex_digits [of 32 "md5 E python_code"] by (auto simp: hexdigest_def)
qed

lemma main_path_below:
  assumes "d \<noteq> []" "\<not> suffix ''/'' d"
  shows "below d (os_path_join d (main_filename_at E python_code k))"
  using assms main_filename_no_slash [of E python_code k]
  by (simp add: os_path_join_def below_def)

section \<open>Failures\<close>

text \<open>
  What the \<^verbatim>\<open>except\<close> clause of lines 144 to 151 makes of an exception that leaves the body
  of the \<^verbatim>\<open>try\<close>.
\<close>

lemma raise_gives_system_error:
  assumes "try_body E python_code w = (Inl e, w')"
  shows "execute_python_code E python_code w =
           ([''status'' \<mapsto> JStr ''error'',
             ''error_type'' \<mapsto> JStr ''system_error'',
             ''error_message'' \<mapsto> JStr (exc_str e),
             ''details'' \<mapsto> JStr ''System exception occurred during execution''],
            w')"
  using assms by (simp add: execute_python_code_def system_error_def)

text \<open>
  The exception the body of the \<^verbatim>\<open>try\<close> ends with is the first failure of the operations it
  runs, in the order of the source: the loop over the files, the translation of the
  reply, the request, and the whole body.
\<close>

lemma save_plot_unfold:
  "save_plot E file r w =
     (case getitem file ''path'' of
        Inl e \<Rightarrow> (Inl e, w)
      | Inr path \<Rightarrow>
          (case endswith path ''.png'' of
             Inl e \<Rightarrow> (Inl e, w)
           | Inr is_png \<Rightarrow>
               if \<not> is_png then (Inr r, w)
               else
                 (case open_error E (plot_path_at E (ticks w)) ''wb'' of
                    Some e \<Rightarrow> (Inl e, w\<lparr>ticks := Suc (ticks w)\<rparr>)
                  | None \<Rightarrow>
                      (case getitem file ''content'' of
                         Inl e \<Rightarrow>
                           (Inl e, w\<lparr>ticks := Suc (ticks w),
                                     disk := (disk w)(plot_path_at E (ticks w) \<mapsto> [])\<rparr>)
                       | Inr content \<Rightarrow>
                           (case base64_b64decode E content of
                              Inl e \<Rightarrow>
                                (Inl e, w\<lparr>ticks := Suc (ticks w),
                                          disk := (disk w)(plot_path_at E (ticks w) \<mapsto> [])\<rparr>)
                            | Inr decoded \<Rightarrow>
                                (Inr (plot_fields r content (plot_path_at E (ticks w))),
                                 w\<lparr>ticks := Suc (ticks w),
                                   disk := (disk w)(plot_path_at E (ticks w) \<mapsto> decoded)\<rparr>))))))"
  unfolding save_plot_def
  by (simp add: bind_io_def get_unique_filename_plot Let_def plot_path_at_def [symmetric]
        open_write_def write_file_def lift_io_def return_io_def
        split: sum.splits option.splits)

lemma save_plots_failure:
  "raised (fst (save_plots E xs r w)) = loop_failure E xs (ticks w)"
proof (induction xs arbitrary: r w)
  case Nil
  show ?case by simp
next
  case (Cons f xs)
  show ?case
    by (simp add: save_plot_unfold Cons.IH split: sum.splits option.splits)
qed

lemma raised_bind_lift:
  "raised (fst (bind_io (lift_io r) f w)) =
     (case r of Inl e \<Rightarrow> Some e | Inr x \<Rightarrow> raised (fst (f x w)))"
  by (cases r) simp_all

lemma raised_bind_return:
  "raised (fst (bind_io m (\<lambda>x. return_io (g x)) w)) = raised (fst (m w))"
  by (cases "m w"; cases "fst (m w)") (simp_all add: bind_io_def return_io_def)

lemma raised_return [simp]: "raised (fst (return_io x w)) = None"
  by (simp add: return_io_def)

lemma build_response_failure:
  "raised (fst (build_response E result w)) = reply_failure E result (ticks w)"
  unfolding build_response_def reply_failure_def
  by (simp add: raised_bind_lift raised_bind_return Let_def save_plots_failure
        split: sum.splits)


lemma send_code_outcome:
  "fst (send_code E python_code d w) =
     (let main_filename = main_filename_at E python_code (ticks w);
          main_file_path = os_path_join d main_filename
      in
      (case open_error E main_file_path ''w'' of
         Some e \<Rightarrow> Inl e
       | None \<Rightarrow>
      (case open_error E main_file_path ''rb'' of
         Some e \<Rightarrow> Inl e
       | None \<Rightarrow>
      (case decode_utf8 E (b64encode E (strip E (dedent E python_code))) of
         Inl e \<Rightarrow> Inl e
       | Inr content \<Rightarrow>
      (case urlopen E (sandbox_request E main_filename content) of
         Inl e \<Rightarrow> Inl e
       | Inr reply \<Rightarrow>
      (case decode_utf8 E reply of
         Inl e \<Rightarrow> Inl e
       | Inr text \<Rightarrow> json_loads E text))))))"
  unfolding send_code_def
  by (simp add: bind_io_def get_unique_filename_main Let_def open_write_def write_file_def
        read_file_def lift_io_def http_post_def sandbox_request_def
      split: option.splits sum.splits)

lemma send_code_ticks: "ticks (snd (send_code E python_code d w)) = Suc (ticks w)"
  using send_code_frame [of E python_code d w "fst (send_code E python_code d w)"
      "snd (send_code E python_code d w)"]
  by simp

lemma try_body_failure:
  "raised (fst (try_body E python_code w)) = pipeline_failure E python_code w"
proof (cases "makedirs_error E (TEMP_DIR E)")
  case (Some e)
  then show ?thesis by (simp add: try_body_unfold pipeline_failure_def)
next
  case None
  show ?thesis
  proof (cases "mkdtemp E")
    case (Inl e)
    with None show ?thesis by (simp add: try_body_unfold pipeline_failure_def)
  next
    case (Inr d)
    show ?thesis
    proof (cases "cleanup_error E")
      case (Some e)
      with None Inr show ?thesis
        by (simp add: try_body_unfold pipeline_failure_def split: prod.splits)
    next
      case cl: None
      let ?w0 = "w\<lparr>dirs := insert d (insert (TEMP_DIR E) (dirs w))\<rparr>"
      obtain r1 w1 where s: "send_code E python_code d ?w0 = (r1, w1)"
        by (cases "send_code E python_code d ?w0")
      have t1: "ticks w1 = Suc (ticks w)"
        using send_code_ticks [of E python_code d ?w0] s by simp
      have r1: "r1 = fst (send_code E python_code d ?w0)" using s by simp
      have body: "raised (fst (bind_io (send_code E python_code d) (build_response E) ?w0)) =
                  (case r1 of Inl e \<Rightarrow> Some e
                   | Inr result \<Rightarrow> reply_failure E result (Suc (ticks w)))"
        using s t1 build_response_failure [of E _ w1]
        by (cases r1) (simp_all add: bind_io_def)
      have "raised (fst (try_body E python_code w)) =
            raised (fst (bind_io (send_code E python_code d) (build_response E) ?w0))"
        using None Inr cl by (simp add: try_body_unfold split: prod.splits)
      also have "\<dots> = pipeline_failure E python_code w"
        unfolding body r1 send_code_outcome
        using None Inr cl
        by (simp add: pipeline_failure_def Let_def split: option.splits sum.splits)
      finally show ?thesis .
    qed
  qed
qed

text \<open>
  Claim C1. The call returns a result for every input and every world, and whenever an
  operation of the pipeline fails, be it the making of a directory, the opening of a file,
  the request to the sandbox, the decoding or the parsing of its reply, a subscript or a
  method on the parsed reply, the Base64 decoding of a file, or the removal of the
  temporary directory, the result is that of a system error whose message is the text of
  the exception of the first such failure.
\<close>

theorem failures_become_system_error:
  assumes "pipeline_failure E python_code w = Some e"
  shows "fst (execute_python_code E python_code w) =
           [''status'' \<mapsto> JStr ''error'',
            ''error_type'' \<mapsto> JStr ''system_error'',
            ''error_message'' \<mapsto> JStr (exc_str e),
            ''details'' \<mapsto> JStr ''System exception occurred during execution'']"
proof -
  have "raised (fst (try_body E python_code w)) = Some e"
    using assms by (simp add: try_body_failure)
  then have "fst (try_body E python_code w) = Inl e"
    by (cases "fst (try_body E python_code w)") simp_all
  then show ?thesis
    by (cases "try_body E python_code w") (simp add: execute_python_code_def system_error_def)
qed

text \<open>When no operation fails the body of the \<^verbatim>\<open>try\<close> returns its response, which is the result.\<close>

lemma no_failure_no_exception:
  assumes "pipeline_failure E python_code w = None"
  shows "\<exists>response. fst (try_body E python_code w) = Inr response
           \<and> fst (execute_python_code E python_code w) = response"
proof -
  have "raised (fst (try_body E python_code w)) = None"
    using assms by (simp add: try_body_failure)
  then obtain r where "fst (try_body E python_code w) = Inr r"
    by (cases "fst (try_body E python_code w)") simp_all
  then show ?thesis
    by (cases "try_body E python_code w") (simp add: execute_python_code_def)
qed

text \<open>
  Failures at their source: a working directory that cannot be made, a temporary directory
  that cannot be made, and, once the request has been built, a network that raises and a
  reply that is no JSON. Each ends the body of the \<^verbatim>\<open>try\<close> with its exception.
\<close>

lemma makedirs_failure:
  assumes "makedirs_error E (TEMP_DIR E) = Some e"
  shows "try_body E python_code w = (Inl e, w)"
  using assms by (simp add: try_body_unfold)

lemma mkdtemp_failure:
  assumes "makedirs_error E (TEMP_DIR E) = None" "mkdtemp E = Inl e"
  shows "try_body E python_code w = (Inl e, w\<lparr>dirs := insert (TEMP_DIR E) (dirs w)\<rparr>)"
  using assms by (simp add: try_body_unfold)

lemma network_failure:
  assumes mk: "makedirs_error E (TEMP_DIR E) = None" and tmp: "mkdtemp E = Inr d"
    and op: "\<forall>p m. open_error E p m = None"
    and enc: "decode_utf8 E (b64encode E (strip E (dedent E python_code))) = Inr content"
    and net: "\<forall>req. urlopen E req = Inl e"
    and cl: "cleanup_error E = None"
  shows "fst (try_body E python_code w) = Inl e"
  using assms
  by (simp add: try_body_unfold bind_io_def send_code_def get_unique_filename_main Let_def
        open_write_def write_file_def read_file_def lift_io_def http_post_def
      split: prod.splits)

lemma malformed_json:
  assumes mk: "makedirs_error E (TEMP_DIR E) = None" and tmp: "mkdtemp E = Inr d"
    and op: "\<forall>p m. open_error E p m = None"
    and enc: "decode_utf8 E (b64encode E (strip E (dedent E python_code))) = Inr content"
    and net: "\<forall>req. urlopen E req = Inr reply"
    and dec: "decode_utf8 E reply = Inr text"
    and js: "json_loads E text = Inl e"
    and cl: "cleanup_error E = None"
  shows "fst (try_body E python_code w) = Inl e"
  using assms
  by (simp add: try_body_unfold bind_io_def send_code_def get_unique_filename_main Let_def
        open_write_def write_file_def read_file_def lift_io_def http_post_def
      split: prod.splits)


lemma readonly_plot_path [simp]:
  "plot_path_at (readonly_env r p c) k = ''/srv/relay/temp/plot_d41d8cd9_'' @ c k @ ''.png''"
  using sample_plot_path [of r p c k]
  by (simp add: readonly_env_def plot_path_at_def plot_name_at_def TEMP_DIR_def)

lemma readonly_env_sel [simp]:
  "makedirs_error (readonly_env r p c) = (\<lambda>p. None)"
  "mkdtemp (readonly_env r p c) = Inr ''/tmp/tmpq1w2e3r4''"
  "cleanup_error (readonly_env r p c) = None"
  "open_error (readonly_env r p c) = (\<lambda>p m. if m = ''wb'' then Some (denied p) else None)"
  "decode_utf8 (readonly_env r p c) = Inr"
  "urlopen (readonly_env r p c) = (\<lambda>req. r)"
  "json_loads (readonly_env r p c) t =
     (if r = Inr t then p
      else Inl (PyExc ''JSONDecodeError'' ''Expecting value: line 1 column 1 (char 0)''))"
  "strip (readonly_env r p c) = sample_strip"
  by (simp_all add: readonly_env_def)

text \<open>
  Four calls that fail: the sandbox refuses the connection; its reply is no JSON; the
  second plot of the reply is no Base64; the working directory cannot be written to.
\<close>

theorem failures_witness:
  "fst (execute_python_code
          (sample_env (Inl (PyExc ''URLError'' ''<urlopen error [Errno 111] Connection refused>''))
             (Inr JNull) one_second)
          ''print(1)'' sample_world) =
     [''status'' \<mapsto> JStr ''error'',
      ''error_type'' \<mapsto> JStr ''system_error'',
      ''error_message'' \<mapsto> JStr ''<urlopen error [Errno 111] Connection refused>'',
      ''details'' \<mapsto> JStr ''System exception occurred during execution'']
   \<and> fst (execute_python_code
          (sample_env (Inr ''<html>'')
             (Inl (PyExc ''JSONDecodeError'' ''Expecting value: line 1 column 1 (char 0)''))
             one_second)
          ''print(1)'' sample_world) =
     [''status'' \<mapsto> JStr ''error'',
      ''error_type'' \<mapsto> JStr ''system_error'',
      ''error_message'' \<mapsto> JStr ''Expecting value: line 1 column 1 (char 0)'',
      ''details'' \<mapsto> JStr ''System exception occurred during execution'']
   \<and> fst (execute_python_code
          (sample_env (Inr badplot_reply) (Inr badplot_parsed) one_second)
          ''print(1)'' sample_world) =
     [''status'' \<mapsto> JStr ''error'',
      ''error_type'' \<mapsto> JStr ''system_error'',
      ''error_message'' \<mapsto> JStr ''Incorrect padding'',
      ''details'' \<mapsto> JStr ''System exception occurred during execution'']
   \<and> fst (execute_python_code
          (readonly_env (Inr textplot_reply) (Inr textplot_parsed) one_second)
          ''print(1)'' sample_world) =
     [''status'' \<mapsto> JStr ''error'',
      ''error_type'' \<mapsto> JStr ''system_error'',
      ''error_message'' \<mapsto> JStr (''[Errno 13] Permission denied: '' @ [CHR 0x27] @
          ''/srv/relay/temp/plot_d41d8cd9_20261104_120000.png'' @ [CHR 0x27]),
      ''details'' \<mapsto> JStr ''System exception occurred during execution'']"
proof -
  have net: "pipeline_failure
          (sample_env (Inl (PyExc ''URLError'' ''<urlopen error [Errno 111] Connection refused>''))
             (Inr JNull) one_second)
          ''print(1)'' sample_world =
        Some (PyExc ''URLError'' ''<urlopen error [Errno 111] Connection refused>'')"
    by (simp add: pipeline_failure_def)
  have js: "pipeline_failure
          (sample_env (Inr ''<html>'')
             (Inl (PyExc ''JSONDecodeError'' ''Expecting value: line 1 column 1 (char 0)''))
             one_second)
          ''print(1)'' sample_world =
        Some (PyExc ''JSONDecodeError'' ''Expecting value: line 1 column 1 (char 0)'')"
    by (simp add: pipeline_failure_def)
  have b64: "pipeline_failure
          (sample_env (Inr badplot_reply) (Inr badplot_parsed) one_second)
          ''print(1)'' sample_world =
        Some (PyExc ''Error'' ''Incorrect padding'')"
    by (simp add: pipeline_failure_def reply_failure_def badplot_parsed_def sample_strip_def
          suffix_to_prefix sample_b64decode_def)
  have io: "pipeline_failure
          (readonly_env (Inr textplot_reply) (Inr textplot_parsed) one_second)
          ''print(1)'' sample_world =
        Some (denied ''/srv/relay/temp/plot_d41d8cd9_20261104_120000.png'')"
    by (simp add: pipeline_failure_def reply_failure_def textplot_parsed_def sample_strip_def
          suffix_to_prefix one_second_def)
  from failures_become_system_error [OF net] failures_become_system_error [OF js]
    failures_become_system_error [OF b64] failures_become_system_error [OF io]
  show ?thesis by (simp add: denied_def)
qed

section \<open>The request\<close>




section \<open>Generated names\<close>

lemma length_hexdigest [simp]: "length (hexdigest n) = 32"
  by (simp add: hexdigest_def)

text \<open>
  Claim C7, as the code has it. A generated name is the prefix, the first eight hexadecimal
  digits of the MD5 digest of the content, an underscore, the time to the second and the
  suffix. Two names made with the same prefix and suffix are equal exactly when the eight
  digits agree and the times agree: names made in the same second differ when the
  truncated digests of their contents differ, and the same content in the same second
  gives the same name.
\<close>

theorem unique_filename_equal_iff:
  "fst (get_unique_filename E content1 prefix' suffix' w1) =
     fst (get_unique_filename E content2 prefix' suffix' w2)
   \<longleftrightarrow> take 8 (hexdigest (md5 E content1)) = take 8 (hexdigest (md5 E content2))
       \<and> strftime_now E (ticks w1) = strftime_now E (ticks w2)"
  by (simp add: get_unique_filename_def Let_def)

text \<open>
  Whatever the hash, eight hexadecimal digits cannot tell all contents apart: there are
  two different contents that get the same name at the same reading of the clock.
\<close>

lemma truncated_hash_collides:
  "\<exists>content1 content2. content1 \<noteq> content2
     \<and> fst (get_unique_filename E content1 prefix' suffix' w) =
       fst (get_unique_filename E content2 prefix' suffix' w)"
proof -
  let ?f = "\<lambda>content. take 8 (hexdigest (md5 E content))"
  have "range ?f \<subseteq> {xs. set xs \<subseteq> set ''0123456789abcdef'' \<and> length xs = 8}"
  proof
    fix h assume "h \<in> range ?f"
    then obtain content where h: "h = take 8 (hexdigest (md5 E content))" by blast
    have "set h \<subseteq> set (hexdigest (md5 E content))"
      unfolding h by (rule set_take_subset)
    with set_hex_digits [of 32 "md5 E content"]
    have "set h \<subseteq> set ''0123456789abcdef''" by (simp add: hexdigest_def)
    moreover have "length h = 8" unfolding h by simp
    ultimately show "h \<in> {xs. set xs \<subseteq> set ''0123456789abcdef'' \<and> length xs = 8}" by blast
  qed
  moreover have "finite {xs. set xs \<subseteq> set ''0123456789abcdef'' \<and> length xs = 8}"
    by (rule finite_lists_length_eq) simp
  ultimately have fin: "finite (range ?f)" by (rule finite_subset)
  have "\<not> inj ?f"
  proof
    assume "inj ?f"
    with fin have "finite (UNIV :: string set)" by (rule finite_imageD)
    then show False using infinite_UNIV_listI by blast
  qed
  then obtain content1 content2 where "content1 \<noteq> content2" "?f content1 = ?f content2"
    by (auto simp: inj_on_def)
  then show ?thesis
    by (intro exI [of _ content1] exI [of _ content2])
       (simp add: get_unique_filename_def Let_def)
qed

lemma sample_send_code2:
  assumes "c 0 = ''20261104_120000''"
  shows "send_code (sample_env r p c) ''print(2)'' ''/tmp/tmpq1w2e3r4''
           \<lparr>disk = Map.empty, dirs = D, posted = [], ticks = 0\<rparr> =
         (case r of Inl e \<Rightarrow> Inl e | Inr t \<Rightarrow> p,
          \<lparr>disk = [''/tmp/tmpq1w2e3r4/9edde4c2_20261104_120000.py'' \<mapsto> ''print(2)''],
           dirs = D, posted = [sample_request2], ticks = 1\<rparr>)"
proof -
  have name: "get_unique_filename (sample_env r p c) ''print(2)'' [] ''.py''
                \<lparr>disk = Map.empty, dirs = D, posted = [], ticks = 0\<rparr> =
              (Inr ''9edde4c2_20261104_120000.py'',
               \<lparr>disk = Map.empty, dirs = D, posted = [], ticks = 1\<rparr>)"
    using assms
    by (simp add: get_unique_filename_def sample_md5_def hexdigest_def hex_digit_def Let_def
          hex_digits_numeral hex_digits_1)
  have path: "os_path_join ''/tmp/tmpq1w2e3r4'' ''9edde4c2_20261104_120000.py'' =
                ''/tmp/tmpq1w2e3r4/9edde4c2_20261104_120000.py''"
    by (simp add: os_path_join_def suffix_to_prefix)
  have len: "length sample_body2 = 120" by (simp add: sample_body2_def)
  show ?thesis
    unfolding send_code_def
    by (simp add: name path len Let_def open_write_def write_file_def
          read_file_def bind_io_def lift_io_def http_post_def sample_strip_def
          sample_b64encode_def sample_dumps_def sample_request2_def SNEKBOX_URL_def payload_def
          str_of_nat_numeral split: sum.splits)
qed

lemma one_second_request_phase2:
  "request_phase (sample_env (Inr reply) (Inr parsed) one_second) ''print(2)'' sample_world =
     (Inr (''/tmp/tmpq1w2e3r4'', parsed), sample_sent2)"
proof -
  have "one_second 0 = ''20261104_120000''" by (simp add: one_second_def)
  then show ?thesis
    unfolding request_phase_def sample_world_def
    by (simp add: bind_io_def os_makedirs_def TemporaryDirectory_enter_def return_io_def
          sample_send_code2 [of one_second] sample_sent2_def insert_commute)
qed

text \<open>
  Claim C7 as stated fails twice in the sample world, all readings of the clock in one
  second: the programs \<^verbatim>\<open>print(890)\<close> and \<^verbatim>\<open>print(40914)\<close> differ and get the same name for
  their source file, and the calls of \<^verbatim>\<open>print(1)\<close> and \<^verbatim>\<open>print(2)\<close> write their plots to the
  same path, since the name of a plot is made from the empty content.
\<close>

theorem filenames_collide:
  "''print(890)'' \<noteq> ''print(40914)''
   \<and> fst (get_unique_filename
            (sample_env (Inr textplot_reply) (Inr textplot_parsed) one_second)
            ''print(890)'' [] ''.py'' sample_world) =
       fst (get_unique_filename
            (sample_env (Inr textplot_reply) (Inr textplot_parsed) one_second)
            ''print(40914)'' [] ''.py'' sample_world)
   \<and> ''print(1)'' \<noteq> ''print(2)''
   \<and> fst (execute_python_code
            (sample_env (Inr textplot_reply) (Inr textplot_parsed) one_second)
            ''print(1)'' sample_world) ''plot_path'' =
       Some (JStr ''/srv/relay/temp/plot_d41d8cd9_20261104_120000.png'')
   \<and> fst (execute_python_code
            (sample_env (Inr textplot_reply) (Inr textplot_parsed) one_second)
            ''print(2)'' sample_world) ''plot_path'' =
       Some (JStr ''/srv/relay/temp/plot_d41d8cd9_20261104_120000.png'')"
proof -
  let ?E = "sample_env (Inr textplot_reply) (Inr textplot_parsed) one_second"
  have names: "fst (get_unique_filename ?E ''print(890)'' [] ''.py'' sample_world) =
               fst (get_unique_filename ?E ''print(40914)'' [] ''.py'' sample_world)"
    by (simp add: get_unique_filename_def Let_def sample_md5_def hexdigest_def hex_digit_def
          hex_digits_numeral hex_digits_1)
  have f: "reply_fields textplot_parsed (JInt 0) ''hello\<newline>''
             [JObj [(''path'', JStr ''fig.png''), (''content'', JStr ''aGk='')]]"
    by (simp add: reply_fields_def textplot_parsed_def)
  have one: "fst (execute_python_code ?E ''print(1)'' sample_world) ''plot_path'' =
       Some (JStr ''/srv/relay/temp/plot_d41d8cd9_20261104_120000.png'')"
    using plot_of_last_png [OF one_second_request_phase [of textplot_reply] f,
        where c = "JStr ''aGk=''"]
    by (auto simp: entry_ok_def suffix_to_prefix sample_b64decode_def sample_sent_def
          one_second_def plot_fields_def)
  have two: "fst (execute_python_code ?E ''print(2)'' sample_world) ''plot_path'' =
       Some (JStr ''/srv/relay/temp/plot_d41d8cd9_20261104_120000.png'')"
    using plot_of_last_png [OF one_second_request_phase2 [of textplot_reply] f,
        where c = "JStr ''aGk=''"]
    by (auto simp: entry_ok_def suffix_to_prefix sample_b64decode_def sample_sent2_def
          one_second_def plot_fields_def)
  from names one two show ?thesis by simp
qed

section \<open>Entries the loop fails on\<close>



lemma save_plot_entry:
  assumes "open_error E (plot_path_at E (ticks w)) ''wb'' = None"
  shows "save_plot E (JObj ((''path'', JStr path) # kvs)) resp w =
     (if suffix ''.png'' path then
        (case getitem (JObj ((''path'', JStr path) # kvs)) ''content'' of
           Inl e \<Rightarrow>
             (Inl e, w\<lparr>ticks := Suc (ticks w),
                       disk := (disk w)(plot_path_at E (ticks w) \<mapsto> [])\<rparr>)
         | Inr content \<Rightarrow>
             (case base64_b64decode E content of
                Inl e \<Rightarrow>
                  (Inl e, w\<lparr>ticks := Suc (ticks w),
                            disk := (disk w)(plot_path_at E (ticks w) \<mapsto> [])\<rparr>)
              | Inr bs \<Rightarrow>
                  (Inr (plot_fields resp content (plot_path_at E (ticks w))),
                   w\<lparr>ticks := Suc (ticks w),
                     disk := (disk w)(plot_path_at E (ticks w) \<mapsto> bs)\<rparr>)))
      else (Inr resp, w))"
  using assms unfolding save_plot_def
  by (simp add: bind_io_def get_unique_filename_plot Let_def plot_path_at_def [symmetric]
        open_write_def write_file_def lift_io_def return_io_def
        split: sum.splits)




section \<open>Side effects\<close>

text \<open>
  Claim C8, as the code has it. Under the promise of \<^verbatim>\<open>mkdtemp\<close>, and when the temporary
  directory is removed at the end, a call leaves the directories as they were but for the
  working directory, which it makes; and every file it creates or changes is a plot in the
  working directory, named by a reading of the clock taken during the call after the one
  that named the source file. When all readings of the clock give the same second there
  is one such name, so zero or one file.
\<close>

theorem call_changes_only_plots:
  assumes fresh: "fresh_tmp E w" and cl: "cleanup_error E = None"
  shows "(\<forall>p. disk (snd (execute_python_code E python_code w)) p \<noteq> disk w p \<longrightarrow>
            (\<exists>k. ticks w < k \<and> k < ticks (snd (execute_python_code E python_code w))
                 \<and> p = plot_path_at E k))
       \<and> (dirs (snd (execute_python_code E python_code w)) = dirs w
          \<or> dirs (snd (execute_python_code E python_code w)) = insert (TEMP_DIR E) (dirs w))
       \<and> ((\<forall>k. strftime_now E k = strftime_now E 0) \<longrightarrow>
            (\<forall>p. disk (snd (execute_python_code E python_code w)) p \<noteq> disk w p \<longrightarrow>
                 p = plot_path_at E 0))"
proof -
  let ?w' = "snd (execute_python_code E python_code w)"
  have main: "(\<forall>p. disk ?w' p \<noteq> disk w p \<longrightarrow>
                 (\<exists>k. ticks w < k \<and> k < ticks ?w' \<and> p = plot_path_at E k))
            \<and> (dirs ?w' = dirs w \<or> dirs ?w' = insert (TEMP_DIR E) (dirs w))"
  proof (cases "makedirs_error E (TEMP_DIR E)")
    case (Some e)
    then show ?thesis by (simp add: execute_python_code_def try_body_unfold)
  next
    case None
    show ?thesis
    proof (cases "mkdtemp E")
      case (Inl e)
      with None show ?thesis by (simp add: execute_python_code_def try_body_unfold)
    next
      case (Inr d)
      from fresh Inr have d: "d \<noteq> []" "\<not> suffix ''/'' d" "d \<notin> dirs w" "d \<noteq> TEMP_DIR E"
        "\<not> below d (TEMP_DIR E)" "\<forall>p. below d p \<longrightarrow> disk w p = None \<and> p \<notin> dirs w"
        "\<forall>k. \<not> below d (plot_path_at E k)"
        by (simp_all add: fresh_tmp_def)
      let ?w0 = "w\<lparr>dirs := insert d (insert (TEMP_DIR E) (dirs w))\<rparr>"
      obtain r1 w1 where s: "send_code E python_code d ?w0 = (r1, w1)"
        by (cases "send_code E python_code d ?w0")
      obtain r2 w2 where b: "bind_io (send_code E python_code d) (build_response E) ?w0 = (r2, w2)"
        by (cases "bind_io (send_code E python_code d) (build_response E) ?w0")
      note fs = send_code_frame [OF s]
      have step2: "dirs w2 = dirs w1 \<and> ticks w1 \<le> ticks w2
          \<and> (\<forall>p. disk w2 p \<noteq> disk w1 p \<longrightarrow>
                (\<exists>k. ticks w1 \<le> k \<and> k < ticks w2 \<and> p = plot_path_at E k))"
      proof (cases r1)
        case (Inl e)
        with s b show ?thesis by (simp add: bind_io_def)
      next
        case (Inr result)
        with s b have "build_response E result w1 = (r2, w2)" by (simp add: bind_io_def)
        from build_response_frame [OF this] show ?thesis by simp
      qed
      have fin: "?w' = rmtree d w2"
        using None Inr b cl
        by (simp add: execute_python_code_def try_body_unfold split: sum.splits)
      have dirs: "dirs ?w' = insert (TEMP_DIR E) (dirs w)"
        using fin fs step2 d by (auto simp: rmtree_def)
      have t: "ticks ?w' = ticks w2" using fin by (simp add: rmtree_def)
      have disk: "\<forall>p. disk ?w' p \<noteq> disk w p \<longrightarrow>
                 (\<exists>k. ticks w < k \<and> k < ticks ?w' \<and> p = plot_path_at E k)"
      proof (intro allI impI)
        fix p assume ne: "disk ?w' p \<noteq> disk w p"
        have nb: "\<not> below d p"
        proof
          assume "below d p"
          then have "disk ?w' p = None" "disk w p = None"
            using fin d by (simp_all add: rmtree_def)
          with ne show False by simp
        qed
        then have eq: "disk ?w' p = disk w2 p" using fin by (simp add: rmtree_def)
        have "disk w1 p = disk w p"
        proof (rule ccontr)
          assume "disk w1 p \<noteq> disk w p"
          then have "p = os_path_join d (main_filename_at E python_code (ticks w))"
            using fs by simp
          with main_path_below [OF d(1,2)] nb show False by simp
        qed
        with ne eq have "disk w2 p \<noteq> disk w1 p" by simp
        with step2 obtain k where "ticks w1 \<le> k" "k < ticks w2" "p = plot_path_at E k"
          by blast
        with fs t show "\<exists>k. ticks w < k \<and> k < ticks ?w' \<and> p = plot_path_at E k"
          by (intro exI [of _ k]) simp
      qed
      from disk dirs show ?thesis by blast
    qed
  qed
  have "(\<forall>k. strftime_now E k = strftime_now E 0) \<longrightarrow>
            (\<forall>p. disk ?w' p \<noteq> disk w p \<longrightarrow> p = plot_path_at E 0)"
  proof (intro impI allI)
    fix p assume c: "\<forall>k. strftime_now E k = strftime_now E 0" and ne: "disk ?w' p \<noteq> disk w p"
    from main ne obtain k where "p = plot_path_at E k" by blast
    moreover have "strftime_now E k = strftime_now E 0" using c by blast
    then have "plot_path_at E k = plot_path_at E 0"
      by (simp add: plot_path_at_def plot_name_at_def)
    ultimately show "p = plot_path_at E 0" by simp
  qed
  with main show ?thesis by blast
qed

lemma sample_fresh_tmp:
  assumes "\<And>k. \<not> prefix ''/tmp/tmpq1w2e3r4/'' (''/srv/relay/temp/plot_d41d8cd9_'' @ c k @ ''.png'')"
  shows "fresh_tmp (sample_env r p c) sample_world"
  using assms
  by (auto simp: fresh_tmp_def sample_world_def below_def suffix_to_prefix)

theorem call_changes_only_plots_witness:
  "{p. disk (snd (execute_python_code
                    (sample_env (Inr twoplots_reply) (Inr twoplots_parsed) one_second)
                    ''print(1)'' sample_world)) p
       \<noteq> disk sample_world p}
   \<subseteq> {''/srv/relay/temp/plot_d41d8cd9_20261104_120000.png''}"
proof -
  let ?E = "sample_env (Inr twoplots_reply) (Inr twoplots_parsed) one_second"
  have fresh: "fresh_tmp ?E sample_world"
    by (rule sample_fresh_tmp) simp
  from call_changes_only_plots [OF fresh, of "''print(1)''"]
  show ?thesis by (auto simp: one_second_def)
qed

text \<open>
  Claim C8 as stated fails when the clock ticks between two plots of one reply: the call
  writes two files.
\<close>

theorem two_plots_two_files:
  "disk (snd (execute_python_code
                (sample_env (Inr twoplots_reply) (Inr twoplots_parsed) ticking)
                ''print(1)'' sample_world))
     ''/srv/relay/temp/plot_d41d8cd9_20261104_120000.png'' = Some ''hi''
   \<and> disk (snd (execute_python_code
                (sample_env (Inr twoplots_reply) (Inr twoplots_parsed) ticking)
                ''print(1)'' sample_world))
     ''/srv/relay/temp/plot_d41d8cd9_20261104_120001.png'' = Some ''yo''
   \<and> disk sample_world ''/srv/relay/temp/plot_d41d8cd9_20261104_120000.png'' = None
   \<and> disk sample_world ''/srv/relay/temp/plot_d41d8cd9_20261104_120001.png'' = None"
proof -
  let ?E = "sample_env (Inr twoplots_reply) (Inr twoplots_parsed) ticking"
  have f: "reply_fields twoplots_parsed (JInt 0) []
             [JObj [(''path'', JStr ''a.png''), (''content'', JStr ''aGk='')],
              JObj [(''path'', JStr ''b.png''), (''content'', JStr ''eW8='')]]"
    by (simp add: reply_fields_def twoplots_parsed_def)
  have "build_response ?E twoplots_parsed sample_sent =
          (Inr (plot_fields
                  (plot_fields [''status'' \<mapsto> JStr ''success'', ''returncode'' \<mapsto> JInt 0]
                     (JStr ''aGk='') ''/srv/relay/temp/plot_d41d8cd9_20261104_120000.png'')
                  (JStr ''eW8='') ''/srv/relay/temp/plot_d41d8cd9_20261104_120001.png''),
           sample_sent
             \<lparr>ticks := 3,
              disk := (disk sample_sent)
                (''/srv/relay/temp/plot_d41d8cd9_20261104_120000.png'' \<mapsto> ''hi'',
                 ''/srv/relay/temp/plot_d41d8cd9_20261104_120001.png'' \<mapsto> ''yo'')\<rparr>)"
    by (simp add: build_response_success [OF f] save_plot_entry sample_strip_def
          suffix_to_prefix sample_b64decode_def sample_sent_def ticking_def)
  from execute_after_request [OF ticking_request_phase [of twoplots_reply] this]
  show ?thesis
    by (simp add: rmtree_def below_def sample_world_def)
qed

end
